theory Spec2Isabelle
  imports Main "HOL-Library.Multiset" "HOL-Library.Log_Nat"
begin

section \<open>The data ingestion pipeline of \<^verbatim>\<open>src/data/data_ingestion.py\<close>\<close>

text \<open>
  The program is a sequence of five stages: \<^verbatim>\<open>load_params\<close>, \<^verbatim>\<open>read_data\<close>,
  \<^verbatim>\<open>process_data\<close>, scikit-learn's \<^verbatim>\<open>train_test_split\<close> and \<^verbatim>\<open>save_data\<close>, run by
  \<^verbatim>\<open>main\<close>. Every stage is a handful of calls into pandas, PyYAML, scikit-learn and the
  operating system. Those library calls are embedded by their documented behaviour on
  the arguments the program passes them; the functions of the program itself are
  embedded statement by statement on top of them.

  A Python exception is a value of the type \<open>exn\<close>; a call that may raise returns
  \<open>exn + 'a\<close>, with \<open>Inl\<close> for the exception.
\<close>

subsection \<open>Cells, tables and exceptions\<close>

text \<open>
  A cell of a DataFrame read by \<^verbatim>\<open>pd.read_csv\<close> is a string, a number or a missing value.
  A table is stored as pandas stores it, column by column: the row labels (the index)
  and, for each column name, the list of cells of that column.
\<close>

datatype cell = Str string | Num int | NaN

record table =
  index :: "nat list"
  cols :: "(string \<times> cell list) list"

definition columns :: "table \<Rightarrow> string list" where
  "columns t = map fst (cols t)"

definition nrows :: "table \<Rightarrow> nat" where
  "nrows t = length (index t)"

text \<open>
  A table as \<^verbatim>\<open>read_csv\<close> builds it: the column names are pairwise distinct (\<^verbatim>\<open>read_csv\<close>
  renames duplicates), every column has one cell per row, and the row labels are
  pairwise distinct.
\<close>

definition wf_table :: "table \<Rightarrow> bool" where
  "wf_table t \<longleftrightarrow>
     distinct (columns t) \<and> distinct (index t) \<and>
     list_all (\<lambda>(c, cs). length cs = nrows t) (cols t)"

text \<open>The row at position \<open>k\<close>: its label and its cells, each under its column name.\<close>

definition row_at :: "table \<Rightarrow> nat \<Rightarrow> nat \<times> (string \<times> cell) list" where
  "row_at t k = (index t ! k, map (\<lambda>(c, cs). (c, cs ! k)) (cols t))"

definition records :: "table \<Rightarrow> (nat \<times> (string \<times> cell) list) list" where
  "records t = map (row_at t) [0..<nrows t]"

datatype exn =
    FileNotFoundError
  | KeyError string
  | TypeError
  | YAMLError
  | EmptyDataError
  | ParserError
  | URLError
  | ValueError
  | OSError

subsection \<open>The pandas operations the program calls\<close>

text \<open>
  \<^verbatim>\<open>df.drop(columns=labels, inplace=True)\<close> removes the columns with those names and
  raises \<^verbatim>\<open>KeyError("[...] not found in axis")\<close>, listing the labels that are no column
  of the table, when there is one.
\<close>

definition quoted :: "string \<Rightarrow> string" where
  "quoted l = CHR 0x27 # l @ [CHR 0x27]"

fun comma_sep :: "string list \<Rightarrow> string" where
  "comma_sep [] = []"
| "comma_sep [l] = l"
| "comma_sep (l # ls) = l @ '', '' @ comma_sep ls"

definition list_repr :: "string list \<Rightarrow> string" where
  "list_repr ls = ''['' @ comma_sep (map quoted ls) @ '']''"

definition drop_columns :: "string list \<Rightarrow> table \<Rightarrow> exn + table" where
  "drop_columns labels t =
     (case filter (\<lambda>l. l \<notin> set (columns t)) labels of
        [] \<Rightarrow> Inr (t\<lparr>cols := filter (\<lambda>(c, cs). c \<notin> set labels) (cols t)\<rparr>)
      | m # ms \<Rightarrow> Inl (KeyError (list_repr (m # ms) @ '' not found in axis'')))"

text \<open>\<^verbatim>\<open>df[name]\<close>: the column of that name, or \<^verbatim>\<open>KeyError(name)\<close>.\<close>

definition getitem :: "table \<Rightarrow> string \<Rightarrow> exn + cell list" where
  "getitem t name =
     (case map_of (cols t) name of None \<Rightarrow> Inl (KeyError name) | Some cs \<Rightarrow> Inr cs)"

text \<open>\<^verbatim>\<open>series.isin(values)\<close>: for each cell, whether it is one of the values.\<close>

definition isin :: "cell list \<Rightarrow> cell list \<Rightarrow> bool list" where
  "isin s vals = map (\<lambda>x. x \<in> set vals) s"

text \<open>
  \<^verbatim>\<open>df[mask]\<close> with a boolean series on the table's own index: a new table holding the
  rows at which the mask is true, labels kept.
\<close>

fun boolean_mask :: "bool list \<Rightarrow> 'a list \<Rightarrow> 'a list" where
  "boolean_mask (b # bs) (x # xs) = (if b then x # boolean_mask bs xs else boolean_mask bs xs)"
| "boolean_mask _ _ = []"

definition getitem_bool :: "table \<Rightarrow> bool list \<Rightarrow> table" where
  "getitem_bool t keep =
     \<lparr>index = boolean_mask keep (index t),
      cols = map (\<lambda>(c, cs). (c, boolean_mask keep cs)) (cols t)\<rparr>"

text \<open>
  \<^verbatim>\<open>df[name].replace(mapping, inplace=True)\<close>: a chained call. The column is fetched
  first, so a missing column is a \<^verbatim>\<open>KeyError\<close>; then every cell of the fetched column
  that is a key of the mapping becomes the key's value. Whether the table sees that
  depends on the pandas that is installed, and the program pins no version. Without
  copy-on-write (pandas before version 3, as shipped) the fetched column is the table's
  cached column and the update reaches the table. With copy-on-write (pandas 3, or the
  option in version 2) the fetched column is a temporary: the call changes the temporary,
  pandas warns, and the table is left as it was.
\<close>

definition replace_cell :: "(cell \<times> cell) list \<Rightarrow> cell \<Rightarrow> cell" where
  "replace_cell mapping x = (case map_of mapping x of None \<Rightarrow> x | Some y \<Rightarrow> y)"

definition replace_inplace ::
  "bool \<Rightarrow> table \<Rightarrow> string \<Rightarrow> (cell \<times> cell) list \<Rightarrow> exn + table" where
  "replace_inplace cow t name mapping =
     (case getitem t name of
        Inl e \<Rightarrow> Inl e
      | Inr s \<Rightarrow>
          if cow then Inr t
          else Inr (t\<lparr>cols := map (\<lambda>(c, cs). if c = name then (c, map (replace_cell mapping) cs)
                                            else (c, cs)) (cols t)\<rparr>))"

subsection \<open>Configuration values, the log and the outside world\<close>

text \<open>
  What \<^verbatim>\<open>yaml.safe_load\<close> returns: a scalar, a list or a dict. A float is given by the
  rational number that the double holds; a dict by its entries (a key that is not a
  string can never be looked up by the program and is left out).
\<close>

datatype yaml =
    YNull
  | YBool bool
  | YInt int
  | YFloat rat
  | YStr string
  | YList "yaml list"
  | YMap "(string \<times> yaml) list"

text \<open>
  A record of the log file: its level, the message with \<open>{}\<close> where the program
  interpolates a value, and the values interpolated.
\<close>

datatype level = INFO | ERROR

datatype log_arg = AText string | AValue yaml | ARaised exn

type_synonym log_record = "level \<times> string \<times> log_arg list"

text \<open>
  The world the program runs in:
  \<^item> \<open>configs\<close>: for a path, what opening the file and parsing it as YAML gives
    (no file, a file that is not YAML, or the parsed document);
  \<^item> \<open>remote\<close>: what \<^verbatim>\<open>pd.read_csv\<close> gives for a location;
  \<^item> \<open>copy_on_write\<close>: whether the installed pandas copies on write;
  \<^item> \<open>unwritable\<close>: the paths at which creating a directory or a file is refused;
  \<^item> \<open>dirs\<close> and \<open>files\<close>: the directories and delimited files that exist, a file
    being its header line and its data lines;
  \<^item> \<open>ml_pipeline_log\<close>: the records appended to \<^verbatim>\<open>ml_pipeline.log\<close>.
\<close>

datatype yaml_src = Malformed | Document yaml

type_synonym csv = "string list \<times> cell list list"

record world =
  configs :: "string \<rightharpoonup> yaml_src"
  remote :: "string \<Rightarrow> exn + table"
  copy_on_write :: bool
  unwritable :: "string \<Rightarrow> bool"
  dirs :: "string set"
  files :: "string \<rightharpoonup> csv"
  ml_pipeline_log :: "log_record list"

definition logging_info :: "string \<Rightarrow> log_arg list \<Rightarrow> world \<Rightarrow> world" where
  "logging_info msg args w = w\<lparr>ml_pipeline_log := ml_pipeline_log w @ [(INFO, msg, args)]\<rparr>"

definition logging_error :: "string \<Rightarrow> log_arg list \<Rightarrow> world \<Rightarrow> world" where
  "logging_error msg args w = w\<lparr>ml_pipeline_log := ml_pipeline_log w @ [(ERROR, msg, args)]\<rparr>"

subsection \<open>\<^verbatim>\<open>load_params\<close>\<close>

text \<open>
  \<^verbatim>\<open>v[key]\<close> on a parsed value: a dict gives the entry or \<^verbatim>\<open>KeyError(key)\<close>; any other
  value (a scalar, \<^verbatim>\<open>None\<close>, a list, a string) cannot be subscripted with a string and
  raises \<^verbatim>\<open>TypeError\<close>.
\<close>

definition subscript :: "yaml \<Rightarrow> string \<Rightarrow> exn + yaml" where
  "subscript v key =
     (case v of
        YMap kvs \<Rightarrow> (case map_of kvs key of None \<Rightarrow> Inl (KeyError key) | Some x \<Rightarrow> Inr x)
      | _ \<Rightarrow> Inl TypeError)"

text \<open>The body of the \<^verbatim>\<open>try\<close> block, then the \<^verbatim>\<open>except\<close> clauses, each ending in \<^verbatim>\<open>raise\<close>.\<close>

definition load_params_try :: "string \<Rightarrow> world \<Rightarrow> (exn + yaml) \<times> world" where
  "load_params_try params_path w =
     (case configs w params_path of
        None \<Rightarrow> (Inl FileNotFoundError, w)
      | Some Malformed \<Rightarrow> (Inl YAMLError, w)
      | Some (Document params) \<Rightarrow>
          (case subscript params ''data_ingestion'' of
             Inl e \<Rightarrow> (Inl e, w)
           | Inr section \<Rightarrow>
               (case subscript section ''test_size'' of
                  Inl e \<Rightarrow> (Inl e, w)
                | Inr test_size \<Rightarrow>
                    (Inr test_size,
                     logging_info ''Loaded test_size: {} from {}''
                       [AValue test_size, AText params_path] w))))"

fun load_params_except :: "string \<Rightarrow> exn \<Rightarrow> world \<Rightarrow> world" where
  "load_params_except params_path FileNotFoundError w =
     logging_error ''File {} not found.'' [AText params_path] w"
| "load_params_except params_path (KeyError k) w =
     logging_error ''Invalid structure in {}. 'data_ingestion' or 'test_size' is missing.''
       [AText params_path] w"
| "load_params_except params_path YAMLError w =
     logging_error ''YAML error in {}: {}'' [AText params_path, ARaised YAMLError] w"
| "load_params_except params_path e w = w"

definition load_params :: "string \<Rightarrow> world \<Rightarrow> (exn + yaml) \<times> world" where
  "load_params params_path w =
     (case load_params_try params_path w of
        (Inl e, w') \<Rightarrow> (Inl e, load_params_except params_path e w')
      | (Inr test_size, w') \<Rightarrow> (Inr test_size, w'))"

subsection \<open>\<^verbatim>\<open>read_data\<close>\<close>

definition read_data_try :: "string \<Rightarrow> world \<Rightarrow> (exn + table) \<times> world" where
  "read_data_try url w =
     (case remote w url of
        Inl e \<Rightarrow> (Inl e, w)
      | Inr df \<Rightarrow> (Inr df, logging_info ''Data loaded successfully from {}'' [AText url] w))"

fun read_data_except :: "string \<Rightarrow> exn \<Rightarrow> world \<Rightarrow> world" where
  "read_data_except url EmptyDataError w = logging_error ''No data found at {}.'' [AText url] w"
| "read_data_except url ParserError w =
     logging_error ''Error parsing CSV data from {}.'' [AText url] w"
| "read_data_except url e w =
     logging_error ''Unexpected error reading data from {}: {}'' [AText url, ARaised e] w"

definition read_data :: "string \<Rightarrow> world \<Rightarrow> (exn + table) \<times> world" where
  "read_data url w =
     (case read_data_try url w of
        (Inl e, w') \<Rightarrow> (Inl e, read_data_except url e w')
      | (Inr df, w') \<Rightarrow> (Inr df, w'))"

subsection \<open>\<^verbatim>\<open>process_data\<close>\<close>

text \<open>
  The function works on the caller's DataFrame object: \<^verbatim>\<open>drop(..., inplace=True)\<close>
  changes it. The embedding therefore returns three things: what the call returns or
  raises, the caller's table as the call leaves it, and the world (for the log).
  \<^verbatim>\<open>df[mask]\<close> builds a new table, so the recoding never touches the caller's table;
  whether it reaches the returned table is the matter of \<open>replace_inplace\<close>.
\<close>

definition process_data_try :: "table \<Rightarrow> world \<Rightarrow> (exn + table) \<times> table \<times> world" where
  "process_data_try df w =
     (case drop_columns [''tweet_id''] df of
        Inl e \<Rightarrow> (Inl e, df, w)
      | Inr df1 \<Rightarrow>
          (case getitem df1 ''sentiment'' of
             Inl e \<Rightarrow> (Inl e, df1, w)
           | Inr s \<Rightarrow>
               (let final_df = getitem_bool df1 (isin s [Str ''happiness'', Str ''sadness''])
                in case replace_inplace (copy_on_write w) final_df ''sentiment''
                          [(Str ''happiness'', Num 1), (Str ''sadness'', Num 0)] of
                     Inl e \<Rightarrow> (Inl e, df1, w)
                   | Inr final_df' \<Rightarrow>
                       (Inr final_df', df1,
                        logging_info
                          ''Data processing complete. Filtered for happiness and sadness sentiments.''
                          [] w))))"

fun process_data_except :: "exn \<Rightarrow> world \<Rightarrow> world" where
  "process_data_except (KeyError k) w =
     logging_error ''Column missing in DataFrame: {}'' [ARaised (KeyError k)] w"
| "process_data_except e w = logging_error ''Error processing data: {}'' [ARaised e] w"

definition process_data :: "table \<Rightarrow> world \<Rightarrow> (exn + table) \<times> table \<times> world" where
  "process_data df w =
     (case process_data_try df w of
        (Inl e, df', w') \<Rightarrow> (Inl e, df', process_data_except e w')
      | (Inr final_df, df', w') \<Rightarrow> (Inr final_df, df', w'))"

subsection \<open>scikit-learn's \<^verbatim>\<open>train_test_split\<close>\<close>

text \<open>
  \<^verbatim>\<open>main\<close> calls \<^verbatim>\<open>train_test_split(final_df, test_size=test_size, random_state=42)\<close>.
  The function belongs to scikit-learn; what follows is its algorithm for these
  arguments (no \<^verbatim>\<open>train_size\<close>, shuffling on, no stratification).

  The product \<^verbatim>\<open>test_size * n_samples\<close> is a product of doubles. \<open>float64 x\<close> is the
  double nearest to a rational \<open>x \<ge> 0\<close>, ties to the even mantissa (53 significant bits,
  least exponent \<open>-1022\<close>; the program never rounds a negative value), \<open>ilog2 x\<close> the
  exponent of the power of two at or below \<open>x\<close>, and \<open>fmul\<close> the product of a double
  and an integer.
\<close>

definition round_half_even :: "rat \<Rightarrow> int" where
  "round_half_even x =
     (let f = \<lfloor>x\<rfloor>; d = x - of_int f
      in if d < 1 / 2 then f else if 1 / 2 < d then f + 1 else if even f then f else f + 1)"

definition ilog2 :: "rat \<Rightarrow> int" where
  "ilog2 x =
     (let (p, q) = quotient_of x;
          e = int (floorlog 2 (nat p)) - int (floorlog 2 (nat q))
      in if 2 powi e \<le> x then e else e - 1)"

definition float64 :: "rat \<Rightarrow> rat" where
  "float64 x =
     (if x \<le> 0 then 0
      else let q = max (ilog2 x) (- 1022) - 52
           in of_int (round_half_even (x / 2 powi q)) * 2 powi q)"

definition fmul :: "rat \<Rightarrow> nat \<Rightarrow> rat" where
  "fmul f n = float64 (f * float64 (of_nat n))"

text \<open>
  The number of test rows asked for. A float must lie strictly between 0 and 1 and
  stands for a fraction: the count is the ceiling of the product. An integer must lie
  strictly between 0 and the number of rows and is the count itself. \<^verbatim>\<open>None\<close> stands for
  the default fraction 0.25. Anything else is refused.
\<close>

fun n_test_of :: "yaml \<Rightarrow> nat \<Rightarrow> exn + int" where
  "n_test_of (YFloat f) n_samples =
     (if f \<le> 0 \<or> 1 \<le> f then Inl ValueError else Inr \<lceil>fmul f n_samples\<rceil>)"
| "n_test_of (YInt k) n_samples =
     (if int n_samples \<le> k \<or> k \<le> 0 then Inl ValueError else Inr k)"
| "n_test_of YNull n_samples = Inr \<lceil>fmul (1 / 4) n_samples\<rceil>"
| "n_test_of v n_samples = Inl ValueError"

text \<open>
  The two counts. The train side is what the test side leaves; an empty train side is
  refused, and so is a count that is not strictly between 0 and the number of rows.
\<close>

definition validate_shuffle_split :: "nat \<Rightarrow> yaml \<Rightarrow> exn + nat \<times> nat" where
  "validate_shuffle_split n_samples test_size =
     (case n_test_of test_size n_samples of
        Inl e \<Rightarrow> Inl e
      | Inr n_test \<Rightarrow>
          (let n_train = int n_samples - n_test
           in if n_train = 0 then Inl ValueError
              else if int n_samples \<le> n_test \<or> n_test \<le> 0 then Inl ValueError
              else if int n_samples \<le> n_train \<or> n_train \<le> 0 then Inl ValueError
              else Inr (nat n_train, nat n_test)))"

text \<open>\<^verbatim>\<open>df.iloc[positions]\<close>: the rows at the given positions, in that order, labels kept.\<close>

definition iloc :: "table \<Rightarrow> nat list \<Rightarrow> table" where
  "iloc t ps = \<lparr>index = map (\<lambda>k. index t ! k) ps,
                cols = map (\<lambda>(c, cs). (c, map (\<lambda>k. cs ! k) ps)) (cols t)\<rparr>"

text \<open>
  The split shuffles the positions \<open>0, \<dots>, n - 1\<close> with a generator built from the seed
  alone, gives the first \<open>n_test\<close> shuffled positions to the test side and the next
  \<open>n_train\<close> to the train side. The generator's sequence is not computed here: the
  shuffle is the parameter \<open>permutation\<close>, from the seed and \<open>n\<close> to the shuffled
  positions.
\<close>

definition train_test_split ::
  "(nat \<Rightarrow> nat \<Rightarrow> nat list) \<Rightarrow> table \<Rightarrow> yaml \<Rightarrow> nat \<Rightarrow> exn + table \<times> table" where
  "train_test_split permutation t test_size random_state =
     (let n_samples = nrows t
      in case validate_shuffle_split n_samples test_size of
           Inl e \<Rightarrow> Inl e
         | Inr (n_train, n_test) \<Rightarrow>
             (let p = permutation random_state n_samples;
                  ind_test = take n_test p;
                  ind_train = take n_train (drop n_test p)
              in Inr (iloc t ind_train, iloc t ind_test)))"

subsection \<open>\<^verbatim>\<open>save_data\<close>\<close>

text \<open>
  \<^verbatim>\<open>os.path.join\<close>, \<^verbatim>\<open>os.makedirs(path, exist_ok=True)\<close> (the directory and every
  directory above it) and \<^verbatim>\<open>df.to_csv(path, index=...)\<close>: the header line is the column
  names and each data line the cells of a row, both behind the row label when the index
  is asked for.
\<close>

definition path_join :: "string \<Rightarrow> string \<Rightarrow> string" where
  "path_join a b =
     (if b \<noteq> [] \<and> hd b = CHR ''/'' then b
      else if a = [] \<or> last a = CHR ''/'' then a @ b
      else a @ ''/'' @ b)"

definition dir_chain :: "string \<Rightarrow> string list" where
  "dir_chain p =
     map (\<lambda>k. take k p) (filter (\<lambda>k. k = length p \<or> p ! k = CHR ''/'') [1..<Suc (length p)])"

definition makedirs :: "string \<Rightarrow> world \<Rightarrow> (exn + unit) \<times> world" where
  "makedirs path w =
     (if unwritable w path then (Inl OSError, w)
      else (Inr (), w\<lparr>dirs := dirs w \<union> set (dir_chain path)\<rparr>))"

definition csv_of :: "table \<Rightarrow> bool \<Rightarrow> csv" where
  "csv_of t with_index =
     (if with_index
      then ([] # columns t,
            map (\<lambda>k. Num (int (index t ! k)) # map (\<lambda>(c, cs). cs ! k) (cols t)) [0..<nrows t])
      else (columns t, map (\<lambda>k. map (\<lambda>(c, cs). cs ! k) (cols t)) [0..<nrows t]))"

definition to_csv :: "table \<Rightarrow> string \<Rightarrow> bool \<Rightarrow> world \<Rightarrow> (exn + unit) \<times> world" where
  "to_csv t path with_index w =
     (if unwritable w path then (Inl OSError, w)
      else (Inr (), w\<lparr>files := (files w)(path \<mapsto> csv_of t with_index)\<rparr>))"

definition save_data_try :: "string \<Rightarrow> table \<Rightarrow> table \<Rightarrow> world \<Rightarrow> (exn + unit) \<times> world" where
  "save_data_try data_path train_data test_data w =
     (case makedirs data_path w of
        (Inl e, w1) \<Rightarrow> (Inl e, w1)
      | (Inr u1, w1) \<Rightarrow>
          (case to_csv train_data (path_join data_path ''train.csv'') False w1 of
             (Inl e, w2) \<Rightarrow> (Inl e, w2)
           | (Inr u2, w2) \<Rightarrow>
               (case to_csv test_data (path_join data_path ''test.csv'') False w2 of
                  (Inl e, w3) \<Rightarrow> (Inl e, w3)
                | (Inr u3, w3) \<Rightarrow>
                    (Inr (), logging_info ''Data saved successfully to {}'' [AText data_path] w3))))"

definition save_data :: "string \<Rightarrow> table \<Rightarrow> table \<Rightarrow> world \<Rightarrow> (exn + unit) \<times> world" where
  "save_data data_path train_data test_data w =
     (case save_data_try data_path train_data test_data w of
        (Inl e, w') \<Rightarrow>
          (Inl e, logging_error ''Error saving data to {}: {}'' [AText data_path, ARaised e] w')
      | (Inr u, w') \<Rightarrow> (Inr (), w'))"

subsection \<open>\<^verbatim>\<open>main\<close>\<close>

definition dataset_url :: string where
  "dataset_url =
     ''https://raw.githubusercontent.com/campusx-official/jupyter-masterclass/main/tweet_emotions.csv''"

text \<open>
  The \<^verbatim>\<open>try\<close> block of \<^verbatim>\<open>main\<close>: the stages in order, the first exception ending the
  block. Around it, \<^verbatim>\<open>except Exception\<close> writes one record to the log and does not raise,
  and the closing record is written on every path; \<^verbatim>\<open>main\<close> then returns normally.
\<close>

definition main_try :: "(nat \<Rightarrow> nat \<Rightarrow> nat list) \<Rightarrow> world \<Rightarrow> (exn + unit) \<times> world" where
  "main_try permutation w =
     (case load_params ''params.yaml'' w of
        (Inl e, w1) \<Rightarrow> (Inl e, w1)
      | (Inr test_size, w1) \<Rightarrow>
          (case read_data dataset_url w1 of
             (Inl e, w2) \<Rightarrow> (Inl e, w2)
           | (Inr df, w2) \<Rightarrow>
               (case process_data df w2 of
                  (Inl e, df', w3) \<Rightarrow> (Inl e, w3)
                | (Inr final_df, df', w3) \<Rightarrow>
                    (case train_test_split permutation final_df test_size 42 of
                       Inl e \<Rightarrow> (Inl e, w3)
                     | Inr (train_data, test_data) \<Rightarrow>
                         (let w4 = logging_info
                                     ''Data split into train and test sets with test_size={}''
                                     [AValue test_size] w3
                          in save_data (path_join ''data'' ''raw'') train_data test_data w4)))))"

definition main :: "(nat \<Rightarrow> nat \<Rightarrow> nat list) \<Rightarrow> world \<Rightarrow> (exn + unit) \<times> world" where
  "main permutation w =
     (let w0 = logging_info ''ML pipeline started.'' [] w
      in case main_try permutation w0 of
           (Inl e, w1) \<Rightarrow>
             (Inr (),
              logging_info ''ML pipeline finished.'' []
                (logging_error ''An error occurred during the ML pipeline: {}'' [ARaised e] w1))
         | (Inr u, w1) \<Rightarrow> (Inr (), logging_info ''ML pipeline finished.'' [] w1))"

subsection \<open>Example inputs\<close>

text \<open>
  The ten-row table of the specification's scenario, and a world with no configuration
  file, no reachable dataset, nothing written and an empty log. In every example world
  pandas runs without copy-on-write; where a world with copy-on-write is needed, the
  field is updated.
\<close>

definition scenario_table :: table where
  "scenario_table =
     \<lparr>index = [0, 1, 2, 3, 4, 5, 6, 7, 8, 9],
      cols =
        [(''tweet_id'', [Num 100, Num 101, Num 102, Num 103, Num 104,
                         Num 105, Num 106, Num 107, Num 108, Num 109]),
         (''sentiment'', [Str ''happiness'', Str ''sadness'', Str ''neutral'', Str ''happiness'',
                          Str ''sadness'', Str ''happiness'', Str ''neutral'', Str ''sadness'',
                          Str ''happiness'', Str ''sadness'']),
         (''text'', [Str ''a'', Str ''b'', Str ''c'', Str ''d'', Str ''e'',
                     Str ''f'', Str ''g'', Str ''h'', Str ''i'', Str ''j''])]\<rparr>"

definition quiet_world :: world where
  "quiet_world =
     \<lparr>configs = Map.empty, remote = (\<lambda>url. Inl URLError), copy_on_write = False,
      unwritable = (\<lambda>path. False), dirs = {}, files = Map.empty, ml_pipeline_log = []\<rparr>"

text \<open>
  A table with the columns \<^verbatim>\<open>id\<close>, \<^verbatim>\<open>text\<close> and \<^verbatim>\<open>sentiment\<close>; one with \<^verbatim>\<open>tweet_id\<close> and
  \<^verbatim>\<open>sentiment\<close> only; one with \<^verbatim>\<open>tweet_id\<close> and \<^verbatim>\<open>text\<close> only.
\<close>

definition spec_schema_table :: table where
  "spec_schema_table =
     \<lparr>index = [0, 1],
      cols = [(''id'', [Num 100, Num 101]),
              (''text'', [Str ''a'', Str ''b'']),
              (''sentiment'', [Str ''happiness'', Str ''sadness''])]\<rparr>"

definition no_text_table :: table where
  "no_text_table =
     \<lparr>index = [0, 1],
      cols = [(''tweet_id'', [Num 100, Num 101]),
              (''sentiment'', [Str ''happiness'', Str ''neutral''])]\<rparr>"

definition no_sentiment_table :: table where
  "no_sentiment_table =
     \<lparr>index = [0, 1],
      cols = [(''tweet_id'', [Num 100, Num 101]),
              (''text'', [Str ''a'', Str ''b''])]\<rparr>"

text \<open>
  The eight rows that \<^verbatim>\<open>process_data\<close> keeps of the scenario's ten, recoded as they
  are without copy-on-write, a table with no rows, and a shuffle to run the split with:
  the positions in reverse order.
\<close>

definition scenario_filtered :: table where
  "scenario_filtered =
     \<lparr>index = [0, 1, 3, 4, 5, 7, 8, 9],
      cols =
        [(''sentiment'', [Num 1, Num 0, Num 1, Num 0, Num 1, Num 0, Num 1, Num 0]),
         (''text'', [Str ''a'', Str ''b'', Str ''d'', Str ''e'',
                     Str ''f'', Str ''h'', Str ''i'', Str ''j''])]\<rparr>"

definition empty_table :: table where
  "empty_table = \<lparr>index = [], cols = [(''sentiment'', []), (''text'', [])]\<rparr>"

definition reversed :: "nat \<Rightarrow> nat \<Rightarrow> nat list" where
  "reversed seed n = rev [0..<n]"

text \<open>
  Worlds to run the pipeline in: one whose \<^verbatim>\<open>params.yaml\<close> is an empty document, and one
  whose \<^verbatim>\<open>data_ingestion\<close> section has no \<^verbatim>\<open>test_size\<close>. In both the dataset is the
  scenario's table and every path can be written.
\<close>

definition empty_config_world :: world where
  "empty_config_world =
     \<lparr>configs = [''params.yaml'' \<mapsto> Document YNull],
      remote = (\<lambda>url. if url = dataset_url then Inr scenario_table else Inl URLError),
      copy_on_write = False, unwritable = (\<lambda>path. False), dirs = {}, files = Map.empty,
      ml_pipeline_log = []\<rparr>"

definition no_test_size_world :: world where
  "no_test_size_world =
     \<lparr>configs = [''params.yaml'' \<mapsto>
                  Document (YMap [(''data_ingestion'', YMap [(''random_state'', YInt 42)])])],
      remote = (\<lambda>url. if url = dataset_url then Inr scenario_table else Inl URLError),
      copy_on_write = False, unwritable = (\<lambda>path. False), dirs = {}, files = Map.empty,
      ml_pipeline_log = []\<rparr>"

text \<open>
  The scenario as a run: \<^verbatim>\<open>test_size\<close> is 0.25 and the dataset is the ten-row table.
  A second dataset has, besides \<^verbatim>\<open>tweet_id\<close>, \<^verbatim>\<open>text\<close> and \<^verbatim>\<open>sentiment\<close>, a column
  \<^verbatim>\<open>id\<close> and a column \<^verbatim>\<open>author\<close>.
\<close>

definition scenario_world :: world where
  "scenario_world =
     \<lparr>configs = [''params.yaml'' \<mapsto>
                  Document (YMap [(''data_ingestion'', YMap [(''test_size'', YFloat (1 / 4))])])],
      remote = (\<lambda>url. if url = dataset_url then Inr scenario_table else Inl URLError),
      copy_on_write = False, unwritable = (\<lambda>path. False), dirs = {}, files = Map.empty,
      ml_pipeline_log = []\<rparr>"

definition extra_column_table :: table where
  "extra_column_table =
     \<lparr>index = [0, 1],
      cols = [(''tweet_id'', [Num 100, Num 101]),
              (''id'', [Num 1, Num 2]),
              (''text'', [Str ''a'', Str ''b'']),
              (''sentiment'', [Str ''happiness'', Str ''sadness'']),
              (''author'', [Str ''x'', Str ''y''])]\<rparr>"

definition extra_column_world :: world where
  "extra_column_world =
     \<lparr>configs = [''params.yaml'' \<mapsto>
                  Document (YMap [(''data_ingestion'', YMap [(''test_size'', YFloat (1 / 2))])])],
      remote = (\<lambda>url. if url = dataset_url then Inr extra_column_table else Inl URLError),
      copy_on_write = False, unwritable = (\<lambda>path. False), dirs = {}, files = Map.empty,
      ml_pipeline_log = []\<rparr>"

section \<open>Properties\<close>

subsection \<open>Table operations and the outcomes of \<^verbatim>\<open>process_data\<close>\<close>

lemma boolean_mask_nth:
  "length m = length xs \<Longrightarrow>
   boolean_mask m xs = map (\<lambda>k. xs ! k) (filter (\<lambda>k. m ! k) [0..<length xs])"
proof (induction m xs rule: boolean_mask.induct)
  case (1 b bs x xs)
  have upt: "[0..<length (x # xs)] = 0 # map Suc [0..<length xs]"
    by (simp add: upt_conv_Cons map_Suc_upt del: upt_Suc)
  from 1 show ?case
    unfolding upt by (simp add: filter_map comp_def del: upt_Suc)
qed simp_all

lemma map_of_drop_label:
  "map_of (filter (\<lambda>(c, cs). c \<noteq> x) kvs) y = (if y = x then None else map_of kvs y)"
  by (induction kvs) auto

lemma map_of_map_column:
  "map_of (map (\<lambda>(c, cs). (c, f cs)) kvs) y = map_option f (map_of kvs y)"
  by (induction kvs) auto

lemma map_of_update_column:
  "map_of (map (\<lambda>(c, cs). if c = name then (c, g cs) else (c, cs)) kvs) y =
     (if y = name then map_option g (map_of kvs y) else map_of kvs y)"
  by (induction kvs) auto

lemma drop_tweet_id:
  "drop_columns [''tweet_id''] df =
     (if ''tweet_id'' \<in> set (columns df)
      then Inr (df\<lparr>cols := filter (\<lambda>(c, cs). c \<noteq> ''tweet_id'') (cols df)\<rparr>)
      else Inl (KeyError ''['tweet_id'] not found in axis''))"
  by (simp add: drop_columns_def list_repr_def quoted_def)

lemma wf_column_length:
  "wf_table t \<Longrightarrow> map_of (cols t) c = Some cs \<Longrightarrow> length cs = nrows t"
  by (auto simp: wf_table_def list_all_iff dest!: map_of_SomeD)



lemma in_columns_iff: "c \<in> set (columns t) \<longleftrightarrow> map_of (cols t) c \<noteq> None"
  by (simp add: columns_def map_of_eq_None_iff)

lemma process_data_success:
  assumes "''tweet_id'' \<in> set (columns df)" and "map_of (cols df) ''sentiment'' = Some lab"
  shows "process_data df w =
           (Inr \<lparr>index = boolean_mask (isin lab [Str ''happiness'', Str ''sadness'']) (index df),
                 cols =
                   (if copy_on_write w
                    then map (\<lambda>(c, cs). (c, boolean_mask (isin lab [Str ''happiness'', Str ''sadness'']) cs))
                           (filter (\<lambda>(c, cs). c \<noteq> ''tweet_id'') (cols df))
                    else map (\<lambda>(c, cs). if c = ''sentiment''
                           then (c, map (replace_cell [(Str ''happiness'', Num 1), (Str ''sadness'', Num 0)]) cs)
                           else (c, cs))
                     (map (\<lambda>(c, cs). (c, boolean_mask (isin lab [Str ''happiness'', Str ''sadness'']) cs))
                        (filter (\<lambda>(c, cs). c \<noteq> ''tweet_id'') (cols df))))\<rparr>,
            df\<lparr>cols := filter (\<lambda>(c, cs). c \<noteq> ''tweet_id'') (cols df)\<rparr>,
            logging_info ''Data processing complete. Filtered for happiness and sadness sentiments.'' [] w)"
  using assms
  by (simp add: process_data_def process_data_try_def drop_tweet_id getitem_def
      replace_inplace_def getitem_bool_def map_of_drop_label map_of_map_column)

lemma process_data_no_tweet_id:
  assumes "''tweet_id'' \<notin> set (columns df)"
  shows "process_data df w =
           (Inl (KeyError ''['tweet_id'] not found in axis''), df,
            logging_error ''Column missing in DataFrame: {}''
              [ARaised (KeyError ''['tweet_id'] not found in axis'')] w)"
  using assms by (simp add: process_data_def process_data_try_def drop_tweet_id)

lemma process_data_no_sentiment:
  assumes "''tweet_id'' \<in> set (columns df)" and "''sentiment'' \<notin> set (columns df)"
  shows "process_data df w =
           (Inl (KeyError ''sentiment''),
            df\<lparr>cols := filter (\<lambda>(c, cs). c \<noteq> ''tweet_id'') (cols df)\<rparr>,
            logging_error ''Column missing in DataFrame: {}'' [ARaised (KeyError ''sentiment'')] w)"
  using assms
  by (simp add: process_data_def process_data_try_def drop_tweet_id getitem_def
      map_of_drop_label in_columns_iff)

lemma kept_positions:
  assumes "length lab = n" and "length xs = n"
  shows "boolean_mask (isin lab [Str ''happiness'', Str ''sadness'']) xs =
           map (\<lambda>k. xs ! k)
             (filter (\<lambda>k. lab ! k = Str ''happiness'' \<or> lab ! k = Str ''sadness'') [0..<n])"
proof -
  have "filter (\<lambda>k. isin lab [Str ''happiness'', Str ''sadness''] ! k) [0..<n] =
        filter (\<lambda>k. lab ! k = Str ''happiness'' \<or> lab ! k = Str ''sadness'') [0..<n]"
    using assms by (intro filter_cong) (auto simp: isin_def)
  then show ?thesis
    using assms by (simp add: boolean_mask_nth isin_def)
qed

lemma recode_kept:
  "map (replace_cell [(Str ''happiness'', Num 1), (Str ''sadness'', Num 0)])
     (map (\<lambda>k. lab ! k) (filter (\<lambda>k. lab ! k = Str ''happiness'' \<or> lab ! k = Str ''sadness'') ks)) =
   map (\<lambda>k. if lab ! k = Str ''happiness'' then Num 1 else Num 0)
     (filter (\<lambda>k. lab ! k = Str ''happiness'' \<or> lab ! k = Str ''sadness'') ks)"
  by (auto simp: replace_cell_def)

lemma columns_filter:
  "map fst (filter (\<lambda>(c, cs). P c) kvs) = filter P (map fst kvs)"
  by (induction kvs) auto

lemma names_map_column:
  "map fst (map (\<lambda>(c, cs). (c, f cs)) kvs) = map fst kvs"
  by (induction kvs) auto

lemma names_update_column:
  "map fst (map (\<lambda>(c, cs). if c = name then (c, g cs) else (c, cs)) kvs) = map fst kvs"
  by (induction kvs) auto

subsection \<open>\<^verbatim>\<open>process_data\<close>: filtering and recoding\<close>

text \<open>
  C1, as stated, fails, in two ways. A table with the columns \<^verbatim>\<open>id\<close>, \<^verbatim>\<open>text\<close> and
  \<^verbatim>\<open>sentiment\<close> is refused: the column the function drops is named \<^verbatim>\<open>tweet_id\<close>. And
  where pandas copies on write, the replace of line 48 changes a temporary column: the
  rows of the scenario come back filtered, with the labels still the strings.
\<close>

theorem process_data_recoding_counterexample:
  "wf_table spec_schema_table \<and>
   ''id'' \<in> set (columns spec_schema_table) \<and>
   ''text'' \<in> set (columns spec_schema_table) \<and>
   ''sentiment'' \<in> set (columns spec_schema_table) \<and>
   fst (process_data spec_schema_table quiet_world) =
     Inl (KeyError ''['tweet_id'] not found in axis'') \<and>
   wf_table scenario_table \<and>
   map_sum id (\<lambda>out. map_of (cols out) ''sentiment'')
     (fst (process_data scenario_table (quiet_world\<lparr>copy_on_write := True\<rparr>))) =
     Inr (Some [Str ''happiness'', Str ''sadness'', Str ''happiness'', Str ''sadness'',
                Str ''happiness'', Str ''sadness'', Str ''happiness'', Str ''sadness''])"
proof -
  have "''tweet_id'' \<notin> set (columns spec_schema_table)"
    by (simp add: spec_schema_table_def columns_def)
  then have a: "fst (process_data spec_schema_table quiet_world) =
     Inl (KeyError ''['tweet_id'] not found in axis'')"
    by (simp add: process_data_no_tweet_id)
  have t: "''tweet_id'' \<in> set (columns scenario_table)"
    by (simp add: scenario_table_def columns_def)
  have lab: "map_of (cols scenario_table) ''sentiment'' =
     Some [Str ''happiness'', Str ''sadness'', Str ''neutral'', Str ''happiness'',
           Str ''sadness'', Str ''happiness'', Str ''neutral'', Str ''sadness'',
           Str ''happiness'', Str ''sadness'']"
    by (simp add: scenario_table_def)
  have b: "map_sum id (\<lambda>out. map_of (cols out) ''sentiment'')
     (fst (process_data scenario_table (quiet_world\<lparr>copy_on_write := True\<rparr>))) =
     Inr (Some [Str ''happiness'', Str ''sadness'', Str ''happiness'', Str ''sadness'',
                Str ''happiness'', Str ''sadness'', Str ''happiness'', Str ''sadness''])"
    by (simp add: process_data_success [OF t lab])
       (simp add: scenario_table_def isin_def)
  have "wf_table scenario_table"
    by (simp add: wf_table_def scenario_table_def columns_def nrows_def)
  with a b show ?thesis
    by (simp add: spec_schema_table_def columns_def wf_table_def nrows_def)
qed

text \<open>
  C1, amended. On a table that has the columns \<^verbatim>\<open>tweet_id\<close> and \<^verbatim>\<open>sentiment\<close>,
  \<^verbatim>\<open>process_data\<close> returns a table. Its rows are the rows of the input whose label is the
  string \<^verbatim>\<open>happiness\<close> or \<^verbatim>\<open>sadness\<close>, in the input's order and under their labels; every
  column but \<^verbatim>\<open>tweet_id\<close> and \<^verbatim>\<open>sentiment\<close> (the text among them) holds the cells it
  held. Rows with any other label are not in the result. Where pandas runs without
  copy-on-write, \<^verbatim>\<open>happiness\<close> has become 1 and \<^verbatim>\<open>sadness\<close> 0 in the \<^verbatim>\<open>sentiment\<close> column.
\<close>

theorem process_data_filters_and_recodes:
  assumes "wf_table df"
    and "''tweet_id'' \<in> set (columns df)"
    and "map_of (cols df) ''sentiment'' = Some lab"
  shows "\<exists>out. fst (process_data df w) = Inr out \<and>
     (let kept = filter (\<lambda>k. lab ! k = Str ''happiness'' \<or> lab ! k = Str ''sadness'')
                   [0..<nrows df]
      in index out = map (\<lambda>k. index df ! k) kept \<and>
         columns out = filter (\<lambda>c. c \<noteq> ''tweet_id'') (columns df) \<and>
         (\<not> copy_on_write w \<longrightarrow>
            map_of (cols out) ''sentiment'' =
              Some (map (\<lambda>k. if lab ! k = Str ''happiness'' then Num 1 else Num 0) kept)) \<and>
         (\<forall>c cs. c \<noteq> ''tweet_id'' \<and> c \<noteq> ''sentiment'' \<and> map_of (cols df) c = Some cs \<longrightarrow>
            map_of (cols out) c = Some (map (\<lambda>k. cs ! k) kept)))"
proof -
  let ?K = "isin lab [Str ''happiness'', Str ''sadness'']"
  let ?kept = "filter (\<lambda>k. lab ! k = Str ''happiness'' \<or> lab ! k = Str ''sadness'') [0..<nrows df]"
  let ?masked = "map (\<lambda>(c, cs). (c, boolean_mask ?K cs))
                   (filter (\<lambda>(c, cs). c \<noteq> ''tweet_id'') (cols df))"
  let ?recoded = "map (\<lambda>(c, cs). if c = ''sentiment''
                        then (c, map (replace_cell [(Str ''happiness'', Num 1), (Str ''sadness'', Num 0)]) cs)
                        else (c, cs)) ?masked"
  let ?out = "\<lparr>index = boolean_mask ?K (index df),
                cols = (if copy_on_write w then ?masked else ?recoded)\<rparr>"
  have len: "length lab = nrows df"
    using assms(1,3) by (rule wf_column_length)
  have res: "fst (process_data df w) = Inr ?out"
    using process_data_success [OF assms(2,3)] by simp
  have idx: "index ?out = map (\<lambda>k. index df ! k) ?kept"
    using kept_positions [OF len, of "index df"] by (simp add: nrows_def)
  have "map fst ?masked = filter (\<lambda>c. c \<noteq> ''tweet_id'') (columns df)"
    "map fst ?recoded = filter (\<lambda>c. c \<noteq> ''tweet_id'') (columns df)"
    by (simp_all only: columns_def names_update_column names_map_column columns_filter)
  then have cls: "columns ?out = filter (\<lambda>c. c \<noteq> ''tweet_id'') (columns df)"
    by (simp add: columns_def)
  have masked: "map_of ?masked c =
      map_option (boolean_mask ?K) (if c = ''tweet_id'' then None else map_of (cols df) c)" for c
    by (simp only: map_of_map_column map_of_drop_label)
  have recoded: "map_of ?recoded c =
      (if c = ''sentiment''
       then map_option (map (replace_cell [(Str ''happiness'', Num 1), (Str ''sadness'', Num 0)]))
              (map_of ?masked c)
       else map_of ?masked c)" for c
    by (simp only: map_of_update_column)
  have sent: "map_of (cols ?out) ''sentiment'' =
      Some (map (\<lambda>k. if lab ! k = Str ''happiness'' then Num 1 else Num 0) ?kept)"
    if "\<not> copy_on_write w"
  proof -
    have "map_of ?recoded ''sentiment'' =
        Some (map (replace_cell [(Str ''happiness'', Num 1), (Str ''sadness'', Num 0)])
               (boolean_mask ?K lab))"
      by (subst recoded, subst masked) (simp add: assms(3))
    then have "map_of ?recoded ''sentiment'' =
        Some (map (\<lambda>k. if lab ! k = Str ''happiness'' then Num 1 else Num 0) ?kept)"
      by (simp only: kept_positions [OF len len] recode_kept)
    with that show ?thesis by simp
  qed
  have other: "map_of (cols ?out) c = Some (map (\<lambda>k. cs ! k) ?kept)"
    if "c \<noteq> ''tweet_id''" "c \<noteq> ''sentiment''" "map_of (cols df) c = Some cs" for c cs
  proof -
    have "length cs = nrows df"
      using assms(1) that(3) by (rule wf_column_length)
    then have "boolean_mask ?K cs = map (\<lambda>k. cs ! k) ?kept"
      by (rule kept_positions [OF len])
    moreover have "map_of ?masked c = Some (boolean_mask ?K cs)"
      by (subst masked) (simp add: that)
    moreover have "map_of ?recoded c = map_of ?masked c"
      by (subst recoded) (simp add: that)
    ultimately show ?thesis by simp
  qed
  show ?thesis
    unfolding Let_def using res idx cls sent other by blast
qed

text \<open>
  The scenario of the specification: ten rows, two of them \<^verbatim>\<open>neutral\<close>; eight rows
  remain, recoded to 1, 0, 1, 0, 1, 0, 1, 0.
\<close>

theorem process_data_filters_and_recodes_witness:
  "wf_table scenario_table \<and> ''tweet_id'' \<in> set (columns scenario_table) \<and>
   \<not> copy_on_write quiet_world \<and>
   map_of (cols scenario_table) ''sentiment'' =
     Some [Str ''happiness'', Str ''sadness'', Str ''neutral'', Str ''happiness'',
           Str ''sadness'', Str ''happiness'', Str ''neutral'', Str ''sadness'',
           Str ''happiness'', Str ''sadness''] \<and>
   (\<exists>out. fst (process_data scenario_table quiet_world) = Inr out \<and>
      index out = [0, 1, 3, 4, 5, 7, 8, 9] \<and>
      columns out = [''sentiment'', ''text''] \<and>
      map_of (cols out) ''sentiment'' =
        Some [Num 1, Num 0, Num 1, Num 0, Num 1, Num 0, Num 1, Num 0] \<and>
      map_of (cols out) ''text'' =
        Some [Str ''a'', Str ''b'', Str ''d'', Str ''e'', Str ''f'', Str ''h'', Str ''i'', Str ''j''])"
proof -
  let ?lab = "[Str ''happiness'', Str ''sadness'', Str ''neutral'', Str ''happiness'',
           Str ''sadness'', Str ''happiness'', Str ''neutral'', Str ''sadness'',
           Str ''happiness'', Str ''sadness'']"
  have h1: "wf_table scenario_table"
    by (simp add: wf_table_def scenario_table_def columns_def nrows_def)
  have h2: "''tweet_id'' \<in> set (columns scenario_table)"
    by (simp add: scenario_table_def columns_def)
  have h3: "map_of (cols scenario_table) ''sentiment'' = Some ?lab"
    by (simp add: scenario_table_def)
  have cow: "\<not> copy_on_write quiet_world"
    by (simp add: quiet_world_def)
  have tcol: "map_of (cols scenario_table) ''text'' =
      Some [Str ''a'', Str ''b'', Str ''c'', Str ''d'', Str ''e'',
            Str ''f'', Str ''g'', Str ''h'', Str ''i'', Str ''j'']"
    by (simp add: scenario_table_def)
  have n: "[0..<nrows scenario_table] = [0, 1, 2, 3, 4, 5, 6, 7, 8, 9]"
    by (simp add: scenario_table_def nrows_def upt_rec)
  have kept: "filter (\<lambda>k. ?lab ! k = Str ''happiness'' \<or> ?lab ! k = Str ''sadness'')
                [0..<nrows scenario_table] = [0, 1, 3, 4, 5, 7, 8, 9]"
    unfolding n by simp
  from process_data_filters_and_recodes [OF h1 h2 h3, of quiet_world]
  obtain out where out: "fst (process_data scenario_table quiet_world) = Inr out"
    "index out = map (\<lambda>k. index scenario_table ! k) [0, 1, 3, 4, 5, 7, 8, 9]"
    "columns out = filter (\<lambda>c. c \<noteq> ''tweet_id'') (columns scenario_table)"
    "map_of (cols out) ''sentiment'' =
       Some (map (\<lambda>k. if ?lab ! k = Str ''happiness'' then Num 1 else Num 0) [0, 1, 3, 4, 5, 7, 8, 9])"
    "map_of (cols out) ''text'' =
       Some (map (\<lambda>k. [Str ''a'', Str ''b'', Str ''c'', Str ''d'', Str ''e'',
            Str ''f'', Str ''g'', Str ''h'', Str ''i'', Str ''j''] ! k) [0, 1, 3, 4, 5, 7, 8, 9])"
    unfolding Let_def kept using tcol cow by auto
  have "index out = [0, 1, 3, 4, 5, 7, 8, 9]"
    using out(2) by (simp add: scenario_table_def)
  moreover have "columns out = [''sentiment'', ''text'']"
    using out(3) by (simp add: scenario_table_def columns_def)
  moreover have "map_of (cols out) ''sentiment'' =
        Some [Num 1, Num 0, Num 1, Num 0, Num 1, Num 0, Num 1, Num 0]"
    using out(4) by simp
  moreover have "map_of (cols out) ''text'' =
        Some [Str ''a'', Str ''b'', Str ''d'', Str ''e'', Str ''f'', Str ''h'', Str ''i'', Str ''j'']"
    using out(5) by simp
  ultimately show ?thesis
    using h1 h2 h3 cow out(1) by blast
qed

subsection \<open>\<^verbatim>\<open>process_data\<close>: the columns it needs\<close>

lemma filter_absent_label:
  "x \<notin> set (map fst kvs) \<Longrightarrow> filter (\<lambda>(c, cs). c \<noteq> x) kvs = kvs"
  by (induction kvs) auto

text \<open>
  C5, as stated, fails: a table with the columns \<^verbatim>\<open>id\<close>, \<^verbatim>\<open>text\<close> and \<^verbatim>\<open>sentiment\<close> is
  refused, because the column the function drops is named \<^verbatim>\<open>tweet_id\<close>.
\<close>

theorem process_data_spec_schema_counterexample:
  "wf_table spec_schema_table \<and>
   ''id'' \<in> set (columns spec_schema_table) \<and>
   ''text'' \<in> set (columns spec_schema_table) \<and>
   ''sentiment'' \<in> set (columns spec_schema_table) \<and>
   fst (process_data spec_schema_table quiet_world) =
     Inl (KeyError ''['tweet_id'] not found in axis'')"
proof -
  have "''tweet_id'' \<notin> set (columns spec_schema_table)"
    by (simp add: spec_schema_table_def columns_def)
  then have "fst (process_data spec_schema_table quiet_world) =
     Inl (KeyError ''['tweet_id'] not found in axis'')"
    by (simp add: process_data_no_tweet_id)
  then show ?thesis
    by (simp add: spec_schema_table_def columns_def wf_table_def nrows_def)
qed

text \<open>
  C5, amended. \<^verbatim>\<open>process_data\<close> needs the columns \<^verbatim>\<open>tweet_id\<close> and \<^verbatim>\<open>sentiment\<close>, and no
  other. Without \<^verbatim>\<open>tweet_id\<close> it raises the \<^verbatim>\<open>KeyError\<close> of \<^verbatim>\<open>drop\<close>, which names
  \<^verbatim>\<open>tweet_id\<close>; with \<^verbatim>\<open>tweet_id\<close> and without \<^verbatim>\<open>sentiment\<close> it raises
  \<^verbatim>\<open>KeyError('sentiment')\<close>; with both it returns a table.
\<close>

theorem process_data_schema:
  assumes "wf_table df"
  shows "if ''tweet_id'' \<notin> set (columns df)
         then fst (process_data df w) = Inl (KeyError ''['tweet_id'] not found in axis'')
         else if ''sentiment'' \<notin> set (columns df)
         then fst (process_data df w) = Inl (KeyError ''sentiment'')
         else \<exists>out. fst (process_data df w) = Inr out"
proof (cases "''tweet_id'' \<in> set (columns df)")
  case False
  then show ?thesis by (simp add: process_data_no_tweet_id)
next
  case True
  show ?thesis
  proof (cases "''sentiment'' \<in> set (columns df)")
    case False
    with True show ?thesis by (simp add: process_data_no_sentiment)
  next
    case sent: True
    then obtain lab where "map_of (cols df) ''sentiment'' = Some lab"
      by (auto simp: in_columns_iff)
    with True sent show ?thesis by (simp add: process_data_success)
  qed
qed

theorem process_data_schema_witness:
  "wf_table spec_schema_table \<and> wf_table no_sentiment_table \<and> wf_table no_text_table \<and>
   fst (process_data spec_schema_table quiet_world) =
     Inl (KeyError ''['tweet_id'] not found in axis'') \<and>
   fst (process_data no_sentiment_table quiet_world) = Inl (KeyError ''sentiment'') \<and>
   (\<exists>out. fst (process_data no_text_table quiet_world) = Inr out)"
proof -
  have a: "wf_table spec_schema_table"
    by (simp add: spec_schema_table_def columns_def wf_table_def nrows_def)
  have b: "wf_table no_sentiment_table"
    by (simp add: no_sentiment_table_def columns_def wf_table_def nrows_def)
  have c: "wf_table no_text_table"
    by (simp add: no_text_table_def columns_def wf_table_def nrows_def)
  have "fst (process_data spec_schema_table quiet_world) =
     Inl (KeyError ''['tweet_id'] not found in axis'')"
    using process_data_schema [OF a, of quiet_world]
    by (simp add: spec_schema_table_def columns_def)
  moreover have "fst (process_data no_sentiment_table quiet_world) = Inl (KeyError ''sentiment'')"
    using process_data_schema [OF b, of quiet_world]
    by (simp add: no_sentiment_table_def columns_def)
  moreover have "\<exists>out. fst (process_data no_text_table quiet_world) = Inr out"
    using process_data_schema [OF c, of quiet_world]
    by (simp add: no_text_table_def columns_def)
  ultimately show ?thesis using a b c by blast
qed

text \<open>
  C10. The schema \<^verbatim>\<open>process_data\<close> requires is a column named \<^verbatim>\<open>tweet_id\<close> and a column
  named \<^verbatim>\<open>sentiment\<close>: it returns a table exactly on the tables that have both (a
  \<^verbatim>\<open>text\<close> column is not needed), and it raises a \<^verbatim>\<open>KeyError\<close> on every table with no
  \<^verbatim>\<open>tweet_id\<close> column (an \<^verbatim>\<open>id\<close> column does not help).
\<close>

theorem process_data_requires_tweet_id_and_sentiment:
  assumes "wf_table df"
  shows "((\<exists>out. fst (process_data df w) = Inr out) \<longleftrightarrow>
            ''tweet_id'' \<in> set (columns df) \<and> ''sentiment'' \<in> set (columns df)) \<and>
         (''tweet_id'' \<notin> set (columns df) \<longrightarrow>
            (\<exists>msg. fst (process_data df w) = Inl (KeyError msg)))"
proof (cases "''tweet_id'' \<in> set (columns df)")
  case False
  then show ?thesis by (simp add: process_data_no_tweet_id)
next
  case True
  show ?thesis
  proof (cases "''sentiment'' \<in> set (columns df)")
    case False
    with True show ?thesis by (simp add: process_data_no_sentiment)
  next
    case sent: True
    then obtain lab where "map_of (cols df) ''sentiment'' = Some lab"
      by (auto simp: in_columns_iff)
    with True sent show ?thesis by (simp add: process_data_success)
  qed
qed

theorem process_data_requires_tweet_id_and_sentiment_witness:
  "wf_table no_text_table \<and> ''text'' \<notin> set (columns no_text_table) \<and>
   (\<exists>out. fst (process_data no_text_table quiet_world) = Inr out) \<and>
   wf_table spec_schema_table \<and> ''id'' \<in> set (columns spec_schema_table) \<and>
   ''tweet_id'' \<notin> set (columns spec_schema_table) \<and>
   (\<exists>msg. fst (process_data spec_schema_table quiet_world) = Inl (KeyError msg))"
proof -
  have a: "wf_table no_text_table"
    by (simp add: no_text_table_def columns_def wf_table_def nrows_def)
  have b: "wf_table spec_schema_table"
    by (simp add: spec_schema_table_def columns_def wf_table_def nrows_def)
  have "\<exists>out. fst (process_data no_text_table quiet_world) = Inr out"
    using process_data_requires_tweet_id_and_sentiment [OF a, of quiet_world]
    by (simp add: no_text_table_def columns_def)
  moreover have "\<exists>msg. fst (process_data spec_schema_table quiet_world) = Inl (KeyError msg)"
    using process_data_requires_tweet_id_and_sentiment [OF b, of quiet_world]
    by (simp add: spec_schema_table_def columns_def)
  moreover have "''text'' \<notin> set (columns no_text_table)"
    by (simp add: no_text_table_def columns_def)
  moreover have "''id'' \<in> set (columns spec_schema_table)"
    "''tweet_id'' \<notin> set (columns spec_schema_table)"
    by (simp_all add: spec_schema_table_def columns_def)
  ultimately show ?thesis using a b by blast
qed

subsection \<open>\<^verbatim>\<open>process_data\<close>: what happens to the caller's table\<close>

text \<open>
  C6, as stated, fails: after the call the caller's table has lost its \<^verbatim>\<open>tweet_id\<close>
  column.
\<close>

theorem process_data_mutates_caller_counterexample:
  "columns scenario_table = [''tweet_id'', ''sentiment'', ''text''] \<and>
   columns (fst (snd (process_data scenario_table quiet_world))) = [''sentiment'', ''text'']"
proof -
  have "''tweet_id'' \<in> set (columns scenario_table)"
    by (simp add: scenario_table_def columns_def)
  moreover have "\<exists>lab. map_of (cols scenario_table) ''sentiment'' = Some lab"
    by (simp add: scenario_table_def)
  ultimately show ?thesis
    by (auto simp: process_data_success) (simp_all add: scenario_table_def columns_def)
qed

text \<open>
  C6, amended. The call changes the caller's table in one way only: the column
  \<^verbatim>\<open>tweet_id\<close> is removed from it (a table without that column is left as it is, and
  the call raises). Its row labels, its other columns and their cells, the
  \<^verbatim>\<open>sentiment\<close> strings among them, are as before, whether the call returns or raises;
  filtering and recoding go into the returned table.
\<close>

theorem process_data_caller_table:
  "fst (snd (process_data df w)) = df\<lparr>cols := filter (\<lambda>(c, cs). c \<noteq> ''tweet_id'') (cols df)\<rparr>"
proof (cases "''tweet_id'' \<in> set (columns df)")
  case False
  then have "filter (\<lambda>(c, cs). c \<noteq> ''tweet_id'') (cols df) = cols df"
    by (simp add: columns_def filter_absent_label)
  with False show ?thesis by (simp add: process_data_no_tweet_id)
next
  case True
  show ?thesis
  proof (cases "''sentiment'' \<in> set (columns df)")
    case False
    with True show ?thesis by (simp add: process_data_no_sentiment)
  next
    case sent: True
    then obtain lab where "map_of (cols df) ''sentiment'' = Some lab"
      by (auto simp: in_columns_iff)
    with True show ?thesis by (simp add: process_data_success)
  qed
qed

subsection \<open>The split\<close>

lemma fmul_quarter_8: "\<lceil>fmul (1 / 4) 8\<rceil> = 2"
  by code_simp

lemma fmul_eighth_10: "\<lceil>fmul (1 / 8) 10\<rceil> = 2"
  by code_simp

lemma fmul_zero: "fmul f 0 = 0"
  by (simp add: fmul_def float64_def)

lemma records_iloc: "records (iloc t ps) = map (row_at t) ps"
proof -
  have "row_at (iloc t ps) j = row_at t (ps ! j)" if "j < length ps" for j
    using that by (simp add: row_at_def iloc_def case_prod_unfold)
  then have "records (iloc t ps) = map (\<lambda>j. row_at t (ps ! j)) [0..<length ps]"
    by (simp add: records_def nrows_def iloc_def)
  then show ?thesis
    by (simp add: map_nth flip: map_map [unfolded comp_def])
qed

lemma nrows_iloc: "nrows (iloc t ps) = length ps"
  by (simp add: nrows_def iloc_def)

lemma train_test_split_fraction:
  assumes "0 < f" and "f < 1"
    and "0 < \<lceil>fmul f (nrows t)\<rceil>" and "\<lceil>fmul f (nrows t)\<rceil> < int (nrows t)"
  shows "train_test_split permutation t (YFloat f) seed =
           Inr (iloc t (take (nrows t - nat \<lceil>fmul f (nrows t)\<rceil>)
                          (drop (nat \<lceil>fmul f (nrows t)\<rceil>) (permutation seed (nrows t)))),
                iloc t (take (nat \<lceil>fmul f (nrows t)\<rceil>) (permutation seed (nrows t))))"
  using assms
  by (simp add: train_test_split_def validate_shuffle_split_def Let_def nat_diff_distrib')

lemma train_test_split_refused:
  assumes "0 < f" and "f < 1"
    and "\<not> (0 < \<lceil>fmul f (nrows t)\<rceil> \<and> \<lceil>fmul f (nrows t)\<rceil> < int (nrows t))"
  shows "train_test_split permutation t (YFloat f) seed = Inl ValueError"
  using assms
  by (auto simp: train_test_split_def validate_shuffle_split_def Let_def)

lemma row_at_inj:
  assumes "distinct (index t)" and "i < nrows t" and "j < nrows t" and "row_at t i = row_at t j"
  shows "i = j"
  using assms by (simp add: row_at_def nrows_def nth_eq_iff_index_eq)


lemma split_partitions_rows:
  assumes "distinct (index t)" and "mset p = mset [0..<nrows t]"
  shows "mset (map (row_at t) (take (nrows t - k) (drop k p))) + mset (map (row_at t) (take k p)) =
           mset (records t)"
    and "set (map (row_at t) (take (nrows t - k) (drop k p))) \<inter> set (map (row_at t) (take k p)) = {}"
    and "length (take (nrows t - k) (drop k p)) + length (take k p) = nrows t"
proof -
  have len: "length p = nrows t"
    using assms(2) by (metis length_upt minus_nat.diff_0 size_mset)
  then have rest: "take (nrows t - k) (drop k p) = drop k p"
    by simp
  have "mset (map (row_at t) (drop k p)) + mset (map (row_at t) (take k p)) =
        mset (map (row_at t) (take k p @ drop k p))"
    by (simp only: map_append mset_append add.commute)
  also have "\<dots> = image_mset (row_at t) (mset p)"
    by simp
  also have "\<dots> = mset (records t)"
    by (simp add: assms(2) records_def)
  finally show "mset (map (row_at t) (take (nrows t - k) (drop k p))) +
      mset (map (row_at t) (take k p)) = mset (records t)"
    by (simp only: rest)
  have dp: "distinct p"
    using assms(2) by (metis distinct_upt mset_eq_imp_distinct_iff)
  have sp: "set p = {0..<nrows t}"
    using assms(2) by (metis mset_eq_setD set_upt)
  have "inj_on (row_at t) (set p)"
    unfolding sp using row_at_inj [OF assms(1)] by (auto intro!: inj_onI)
  then have "distinct (map (row_at t) (take k p @ drop k p))"
    using dp by (simp add: distinct_map)
  then have "set (map (row_at t) (take k p)) \<inter> set (map (row_at t) (drop k p)) = {}"
    by (simp only: map_append distinct_append)
  then show "set (map (row_at t) (take (nrows t - k) (drop k p))) \<inter>
      set (map (row_at t) (take k p)) = {}"
    by (simp only: rest Int_commute)
  show "length (take (nrows t - k) (drop k p)) + length (take k p) = nrows t"
    using len by (simp only: rest) simp
qed

text \<open>
  C2, as stated, fails: on a table with no rows (what \<^verbatim>\<open>process_data\<close> returns when no
  label is \<^verbatim>\<open>happiness\<close> or \<^verbatim>\<open>sadness\<close>) the split raises \<^verbatim>\<open>ValueError\<close> for a fraction
  in (0,1), and produces no tables.
\<close>

theorem train_test_split_empty_counterexample:
  "wf_table empty_table \<and> (0::rat) < 1 / 2 \<and> (1 / 2 :: rat) < 1 \<and>
   train_test_split reversed empty_table (YFloat (1 / 2)) 42 = Inl ValueError"
  by (simp add: train_test_split_def validate_shuffle_split_def fmul_zero
      empty_table_def nrows_def wf_table_def columns_def)

text \<open>
  C2, amended. Let \<open>t\<close> have \<open>n\<close> rows under distinct labels, let \<open>f\<close> be a fraction in
  (0,1) and \<open>k\<close> the ceiling of the double product \<open>f * n\<close>, and let the shuffle be a
  permutation of the positions. If \<open>0 < k < n\<close> the split returns a train and a test
  table that share no row, that together hold exactly the rows of \<open>t\<close>, each once,
  and whose lengths add up to \<open>n\<close>. Otherwise (so for every table with fewer than two
  rows) it raises \<^verbatim>\<open>ValueError\<close>.
\<close>

theorem train_test_split_partition:
  assumes "wf_table t" and "0 < f" and "f < 1"
    and "mset (permutation seed (nrows t)) = mset [0..<nrows t]"
  shows "if 0 < \<lceil>fmul f (nrows t)\<rceil> \<and> \<lceil>fmul f (nrows t)\<rceil> < int (nrows t)
         then \<exists>train test.
                train_test_split permutation t (YFloat f) seed = Inr (train, test) \<and>
                mset (records train) + mset (records test) = mset (records t) \<and>
                set (records train) \<inter> set (records test) = {} \<and>
                nrows train + nrows test = nrows t
         else train_test_split permutation t (YFloat f) seed = Inl ValueError"
proof (cases "0 < \<lceil>fmul f (nrows t)\<rceil> \<and> \<lceil>fmul f (nrows t)\<rceil> < int (nrows t)")
  case False
  show ?thesis
    using False train_test_split_refused [OF assms(2,3) False, of permutation seed] by simp
next
  case True
  let ?k = "nat \<lceil>fmul f (nrows t)\<rceil>"
  let ?p = "permutation seed (nrows t)"
  let ?train = "iloc t (take (nrows t - ?k) (drop ?k ?p))"
  let ?test = "iloc t (take ?k ?p)"
  have d: "distinct (index t)"
    using assms(1) by (simp add: wf_table_def)
  have eq: "train_test_split permutation t (YFloat f) seed = Inr (?train, ?test)"
    using True by (intro train_test_split_fraction assms) simp_all
  have "mset (records ?train) + mset (records ?test) = mset (records t)"
    "set (records ?train) \<inter> set (records ?test) = {}"
    "nrows ?train + nrows ?test = nrows t"
    using split_partitions_rows [OF d assms(4), of ?k]
    by (simp_all only: records_iloc nrows_iloc)
  with eq have "\<exists>train test.
                train_test_split permutation t (YFloat f) seed = Inr (train, test) \<and>
                mset (records train) + mset (records test) = mset (records t) \<and>
                set (records train) \<inter> set (records test) = {} \<and>
                nrows train + nrows test = nrows t"
    by blast
  then show ?thesis
    using True by simp
qed


lemma nrows_scenario_filtered: "nrows scenario_filtered = 8"
  by (simp add: nrows_def scenario_filtered_def)

lemma nrows_scenario_table: "nrows scenario_table = 10"
  by (simp add: nrows_def scenario_table_def)

lemma wf_scenario_filtered: "wf_table scenario_filtered"
  by (simp add: wf_table_def scenario_filtered_def columns_def nrows_def)

theorem train_test_split_partition_witness:
  "wf_table scenario_filtered \<and> (0::rat) < 1 / 4 \<and> (1 / 4 :: rat) < 1 \<and>
   mset (reversed 42 (nrows scenario_filtered)) = mset [0..<nrows scenario_filtered] \<and>
   (\<exists>train test.
      train_test_split reversed scenario_filtered (YFloat (1 / 4)) 42 = Inr (train, test) \<and>
      mset (records train) + mset (records test) = mset (records scenario_filtered) \<and>
      set (records train) \<inter> set (records test) = {} \<and>
      nrows train + nrows test = nrows scenario_filtered)"
proof -
  have h2: "(0::rat) < 1 / 4" and h3: "(1 / 4 :: rat) < 1"
    by simp_all
  have h4: "mset (reversed 42 (nrows scenario_filtered)) = mset [0..<nrows scenario_filtered]"
    by (simp add: reversed_def)
  have k: "0 < \<lceil>fmul (1 / 4) (nrows scenario_filtered)\<rceil> \<and>
           \<lceil>fmul (1 / 4) (nrows scenario_filtered)\<rceil> < int (nrows scenario_filtered)"
    by (simp add: nrows_scenario_filtered fmul_quarter_8)
  show ?thesis
    using train_test_split_partition [of scenario_filtered "1 / 4" reversed 42,
        OF wf_scenario_filtered h2 h3 h4]
      wf_scenario_filtered h4
    by (simp only: k if_True) simp
qed

text \<open>
  C9, as stated, fails: with \<open>f = 0.125\<close> and
  \<open>n = 10\<close> the product \<open>f * n\<close> is 1.25, which rounds to 1; the test table has 2 rows.
\<close>

theorem train_test_split_sizes_counterexample:
  "nrows scenario_table = 10 \<and> round ((1 / 8 :: rat) * 10) = 1 \<and>
   map_sum id (\<lambda>(train, test). (nrows train, nrows test))
     (train_test_split reversed scenario_table (YFloat (1 / 8)) 42) = Inr (8, 2)"
proof -
  have "0 < \<lceil>fmul (1 / 8) (nrows scenario_table)\<rceil>"
    "\<lceil>fmul (1 / 8) (nrows scenario_table)\<rceil> < int (nrows scenario_table)"
    by (simp_all add: nrows_scenario_table fmul_eighth_10)
  then have "train_test_split reversed scenario_table (YFloat (1 / 8)) 42 =
      Inr (iloc scenario_table (take (10 - 2) (drop 2 (reversed 42 10))),
           iloc scenario_table (take 2 (reversed 42 10)))"
    using train_test_split_fraction [of "1 / 8" scenario_table reversed 42]
    by (simp add: nrows_scenario_table fmul_eighth_10)
  moreover have "round ((1 / 8 :: rat) * 10) = 1"
    by code_simp
  ultimately show ?thesis
    by (simp add: nrows_scenario_table nrows_iloc reversed_def)
qed

text \<open>
  C9, amended. For a table of \<open>n\<close> rows and a fraction \<open>f\<close> in (0,1), the test table
  has \<open>k\<close> rows, \<open>k\<close> the ceiling (not the rounding) of the double product \<open>f * n\<close>, and
  the train table has \<open>n - k\<close>, whenever \<open>0 < k < n\<close>. In particular the eight rows of
  the scenario split at 0.25 into 2 test rows and 6 train rows.
\<close>

theorem train_test_split_sizes:
  assumes "0 < f" and "f < 1"
    and "length (permutation seed (nrows t)) = nrows t"
    and "0 < \<lceil>fmul f (nrows t)\<rceil>" and "\<lceil>fmul f (nrows t)\<rceil> < int (nrows t)"
  shows "\<exists>train test.
           train_test_split permutation t (YFloat f) seed = Inr (train, test) \<and>
           int (nrows test) = \<lceil>fmul f (nrows t)\<rceil> \<and>
           nrows train = nrows t - nrows test"
proof -
  let ?k = "nat \<lceil>fmul f (nrows t)\<rceil>"
  have "?k < nrows t"
    using assms(4,5) by linarith
  then have "length (take ?k (permutation seed (nrows t))) = ?k"
    "length (take (nrows t - ?k) (drop ?k (permutation seed (nrows t)))) = nrows t - ?k"
    using assms(3) by simp_all
  then show ?thesis
    using assms(4) train_test_split_fraction [OF assms(1,2,4,5), of permutation seed]
    by (simp add: nrows_iloc)
qed

theorem train_test_split_sizes_witness:
  "(0::rat) < 1 / 4 \<and> (1 / 4 :: rat) < 1 \<and>
   length (reversed 42 (nrows scenario_filtered)) = nrows scenario_filtered \<and>
   nrows scenario_filtered = 8 \<and> \<lceil>fmul (1 / 4) (nrows scenario_filtered)\<rceil> = 2 \<and>
   (\<exists>train test.
      train_test_split reversed scenario_filtered (YFloat (1 / 4)) 42 = Inr (train, test) \<and>
      nrows test = 2 \<and> nrows train = 6)"
proof -
  have h1: "(0::rat) < 1 / 4" and h2: "(1 / 4 :: rat) < 1"
    by simp_all
  have h3: "length (reversed 42 (nrows scenario_filtered)) = nrows scenario_filtered"
    by (simp add: reversed_def)
  have k: "\<lceil>fmul (1 / 4) (nrows scenario_filtered)\<rceil> = 2"
    by (simp only: nrows_scenario_filtered fmul_quarter_8)
  have h4: "0 < \<lceil>fmul (1 / 4) (nrows scenario_filtered)\<rceil>"
    and h5: "\<lceil>fmul (1 / 4) (nrows scenario_filtered)\<rceil> < int (nrows scenario_filtered)"
    by (simp_all add: nrows_scenario_filtered fmul_quarter_8)
  from train_test_split_sizes [of "1 / 4" reversed 42 scenario_filtered, OF h1 h2 h3 h4 h5]
  obtain train test where
    "train_test_split reversed scenario_filtered (YFloat (1 / 4)) 42 = Inr (train, test)"
    "int (nrows test) = \<lceil>fmul (1 / 4) (nrows scenario_filtered)\<rceil>"
    "nrows train = nrows scenario_filtered - nrows test"
    by blast
  then have "train_test_split reversed scenario_filtered (YFloat (1 / 4)) 42 = Inr (train, test) \<and>
      nrows test = 2 \<and> nrows train = 6"
    by (simp add: nrows_scenario_filtered fmul_quarter_8)
  then show ?thesis
    using h3 k nrows_scenario_filtered by auto
qed

subsection \<open>The stages and the world\<close>

lemma logging_frame:
  "configs (logging_info m a w) = configs w" "remote (logging_info m a w) = remote w"
  "unwritable (logging_info m a w) = unwritable w" "dirs (logging_info m a w) = dirs w"
  "files (logging_info m a w) = files w"
  "copy_on_write (logging_info m a w) = copy_on_write w"
  "copy_on_write (logging_error m a w) = copy_on_write w"
  "configs (logging_error m a w) = configs w" "remote (logging_error m a w) = remote w"
  "unwritable (logging_error m a w) = unwritable w" "dirs (logging_error m a w) = dirs w"
  "files (logging_error m a w) = files w"
  by (simp_all add: logging_info_def logging_error_def)

lemma load_params_except_frame:
  "configs (load_params_except p e w) = configs w" "remote (load_params_except p e w) = remote w"
  "unwritable (load_params_except p e w) = unwritable w" "dirs (load_params_except p e w) = dirs w"
  "files (load_params_except p e w) = files w"
  "copy_on_write (load_params_except p e w) = copy_on_write w"
  by (cases "(p, e, w)" rule: load_params_except.cases; simp add: logging_frame)+

lemma read_data_except_frame:
  "configs (read_data_except u e w) = configs w" "remote (read_data_except u e w) = remote w"
  "unwritable (read_data_except u e w) = unwritable w" "dirs (read_data_except u e w) = dirs w"
  "files (read_data_except u e w) = files w"
  "copy_on_write (read_data_except u e w) = copy_on_write w"
  by (cases "(u, e, w)" rule: read_data_except.cases; simp add: logging_frame)+

lemma process_data_except_frame:
  "configs (process_data_except e w) = configs w" "remote (process_data_except e w) = remote w"
  "unwritable (process_data_except e w) = unwritable w" "dirs (process_data_except e w) = dirs w"
  "files (process_data_except e w) = files w"
  "copy_on_write (process_data_except e w) = copy_on_write w"
  by (cases "(e, w)" rule: process_data_except.cases; simp add: logging_frame)+

lemma load_params_frame:
  "configs (snd (load_params p w)) = configs w" "remote (snd (load_params p w)) = remote w"
  "unwritable (snd (load_params p w)) = unwritable w" "dirs (snd (load_params p w)) = dirs w"
  "files (snd (load_params p w)) = files w"
  "copy_on_write (snd (load_params p w)) = copy_on_write w"
  by (simp_all add: load_params_def load_params_try_def logging_frame load_params_except_frame
      split: option.splits yaml_src.splits sum.splits)

lemma read_data_frame:
  "configs (snd (read_data u w)) = configs w" "remote (snd (read_data u w)) = remote w"
  "unwritable (snd (read_data u w)) = unwritable w" "dirs (snd (read_data u w)) = dirs w"
  "files (snd (read_data u w)) = files w"
  "copy_on_write (snd (read_data u w)) = copy_on_write w"
  by (simp_all add: read_data_def read_data_try_def logging_frame read_data_except_frame
      split: sum.splits)

lemma process_data_frame:
  "configs (snd (snd (process_data df w))) = configs w"
  "remote (snd (snd (process_data df w))) = remote w"
  "unwritable (snd (snd (process_data df w))) = unwritable w"
  "dirs (snd (snd (process_data df w))) = dirs w"
  "files (snd (snd (process_data df w))) = files w"
  "copy_on_write (snd (snd (process_data df w))) = copy_on_write w"
  by (simp_all add: process_data_def process_data_try_def logging_frame process_data_except_frame
      Let_def split: sum.splits)

text \<open>What each stage returns or raises depends on the part of the world it reads only.\<close>

lemma load_params_result:
  "fst (load_params p w) =
     (case configs w p of
        None \<Rightarrow> Inl FileNotFoundError
      | Some Malformed \<Rightarrow> Inl YAMLError
      | Some (Document params) \<Rightarrow>
          (case subscript params ''data_ingestion'' of
             Inl e \<Rightarrow> Inl e
           | Inr section \<Rightarrow> subscript section ''test_size''))"
  by (simp add: load_params_def load_params_try_def
      split: option.splits yaml_src.splits sum.splits)

lemma read_data_result: "fst (read_data u w) = remote w u"
  by (simp add: read_data_def read_data_try_def split: sum.splits)

lemma process_data_result:
  "copy_on_write w = copy_on_write w' \<Longrightarrow> fst (process_data df w) = fst (process_data df w')"
  by (simp add: process_data_def process_data_try_def Let_def split: sum.splits)

lemma save_data_result:
  "fst (save_data d train test w) =
     (if unwritable w d \<or> unwritable w (path_join d ''train.csv'') \<or>
         unwritable w (path_join d ''test.csv'')
      then Inl OSError else Inr ())"
  by (simp add: save_data_def save_data_try_def makedirs_def to_csv_def)

lemma save_data_files:
  "files (snd (save_data d train test w)) =
     (if unwritable w d \<or> unwritable w (path_join d ''train.csv'') then files w
      else if unwritable w (path_join d ''test.csv'')
      then (files w)(path_join d ''train.csv'' \<mapsto> csv_of train False)
      else (files w)(path_join d ''train.csv'' \<mapsto> csv_of train False,
                     path_join d ''test.csv'' \<mapsto> csv_of test False))"
  by (simp add: save_data_def save_data_try_def makedirs_def to_csv_def logging_frame)


subsection \<open>The orchestration\<close>

lemma data_raw: "path_join ''data'' ''raw'' = ''data/raw''"
  "path_join ''data/raw'' ''train.csv'' = ''data/raw/train.csv''"
  "path_join ''data/raw'' ''test.csv'' = ''data/raw/test.csv''"
  by (simp_all add: path_join_def)

lemma main_try_stages:
  "main_try perm w =
     (let s1 = load_params ''params.yaml'' w
      in case fst s1 of
           Inl e \<Rightarrow> (Inl e, snd s1)
         | Inr test_size \<Rightarrow>
             (let s2 = read_data dataset_url (snd s1)
              in case fst s2 of
                   Inl e \<Rightarrow> (Inl e, snd s2)
                 | Inr df \<Rightarrow>
                     (let s3 = process_data df (snd s2)
                      in case fst s3 of
                           Inl e \<Rightarrow> (Inl e, snd (snd s3))
                         | Inr final_df \<Rightarrow>
                             (case train_test_split perm final_df test_size 42 of
                                Inl e \<Rightarrow> (Inl e, snd (snd s3))
                              | Inr (train_data, test_data) \<Rightarrow>
                                  save_data ''data/raw'' train_data test_data
                                    (logging_info
                                       ''Data split into train and test sets with test_size={}''
                                       [AValue test_size] (snd (snd s3)))))))"
  by (simp add: main_try_def data_raw Let_def split: prod.splits sum.splits)

lemma main_try_result:
  "fst (main_try perm w) =
     (case fst (load_params ''params.yaml'' w) of
        Inl e \<Rightarrow> Inl e
      | Inr test_size \<Rightarrow>
          (case remote w dataset_url of
             Inl e \<Rightarrow> Inl e
           | Inr df \<Rightarrow>
               (case fst (process_data df w) of
                  Inl e \<Rightarrow> Inl e
                | Inr final_df \<Rightarrow>
                    (case train_test_split perm final_df test_size 42 of
                       Inl e \<Rightarrow> Inl e
                     | Inr (train_data, test_data) \<Rightarrow>
                         fst (save_data ''data/raw'' train_data test_data w)))))"
proof -
  let ?w2 = "snd (read_data dataset_url (snd (load_params ''params.yaml'' w)))"
  have pd: "fst (process_data df ?w2) = fst (process_data df w)" for df
    by (rule process_data_result) (simp add: read_data_frame load_params_frame)
  show ?thesis
    unfolding main_try_stages
    by (simp add: Let_def pd read_data_result load_params_frame read_data_frame
        process_data_frame logging_frame save_data_result split: sum.splits prod.splits)
qed

lemma main_try_files:
  "files (snd (main_try perm w)) =
     (case fst (load_params ''params.yaml'' w) of
        Inl e \<Rightarrow> files w
      | Inr test_size \<Rightarrow>
          (case remote w dataset_url of
             Inl e \<Rightarrow> files w
           | Inr df \<Rightarrow>
               (case fst (process_data df w) of
                  Inl e \<Rightarrow> files w
                | Inr final_df \<Rightarrow>
                    (case train_test_split perm final_df test_size 42 of
                       Inl e \<Rightarrow> files w
                     | Inr (train_data, test_data) \<Rightarrow>
                         files (snd (save_data ''data/raw'' train_data test_data w))))))"
proof -
  let ?w2 = "snd (read_data dataset_url (snd (load_params ''params.yaml'' w)))"
  have pd: "fst (process_data df ?w2) = fst (process_data df w)" for df
    by (rule process_data_result) (simp add: read_data_frame load_params_frame)
  show ?thesis
    unfolding main_try_stages
    by (simp add: Let_def pd read_data_result load_params_frame read_data_frame
        process_data_frame logging_frame save_data_files split: sum.splits prod.splits)
qed

lemma main_files: "files (snd (main perm w)) = files (snd (main_try perm (logging_info ''ML pipeline started.'' [] w)))"
  by (simp add: main_def Let_def logging_frame split: prod.splits sum.splits)

lemma main_returns: "fst (main perm w) = Inr ()"
  by (simp add: main_def Let_def split: prod.splits sum.splits)

subsection \<open>Failures\<close>

text \<open>
  C4, as stated, fails: with no \<^verbatim>\<open>params.yaml\<close>, \<^verbatim>\<open>load_params\<close> raises
  \<^verbatim>\<open>FileNotFoundError\<close> and \<^verbatim>\<open>main\<close> returns normally all the same.
\<close>

theorem main_swallows_counterexample:
  "fst (load_params ''params.yaml'' quiet_world) = Inl FileNotFoundError \<and>
   fst (main_try reversed quiet_world) = Inl FileNotFoundError \<and>
   fst (main reversed quiet_world) = Inr ()"
  by (simp add: main_returns main_try_result load_params_result quiet_world_def)

text \<open>
  C4, amended. Each of the four components ends as the body of its \<^verbatim>\<open>try\<close> block ends:
  an exception raised there leaves the component as it was raised.
  \<^verbatim>\<open>main\<close> does not pass it on: it catches every exception of its \<^verbatim>\<open>try\<close> block, writes
  one \<^verbatim>\<open>ERROR\<close> record with the exception and the closing record, and returns normally.
\<close>

theorem components_reraise_main_returns:
  "fst (load_params p w) = fst (load_params_try p w) \<and>
   fst (read_data u w) = fst (read_data_try u w) \<and>
   fst (process_data df w) = fst (process_data_try df w) \<and>
   fst (save_data d train test w) = fst (save_data_try d train test w) \<and>
   fst (main perm w) = Inr () \<and>
   ml_pipeline_log (snd (main perm w)) =
     ml_pipeline_log (snd (main_try perm (logging_info ''ML pipeline started.'' [] w))) @
     (case fst (main_try perm (logging_info ''ML pipeline started.'' [] w)) of
        Inl e \<Rightarrow> [(ERROR, ''An error occurred during the ML pipeline: {}'', [ARaised e])]
      | Inr u \<Rightarrow> []) @
     [(INFO, ''ML pipeline finished.'', [])]"
proof -
  have "fst (load_params p w) = fst (load_params_try p w)"
    by (simp add: load_params_def split: prod.splits sum.splits)
  moreover have "fst (read_data u w) = fst (read_data_try u w)"
    by (simp add: read_data_def split: prod.splits sum.splits)
  moreover have "fst (process_data df w) = fst (process_data_try df w)"
    by (simp add: process_data_def split: prod.splits sum.splits)
  moreover have "fst (save_data d train test w) = fst (save_data_try d train test w)"
    by (simp add: save_data_def split: prod.splits sum.splits)
  moreover have "ml_pipeline_log (snd (main perm w)) =
     ml_pipeline_log (snd (main_try perm (logging_info ''ML pipeline started.'' [] w))) @
     (case fst (main_try perm (logging_info ''ML pipeline started.'' [] w)) of
        Inl e \<Rightarrow> [(ERROR, ''An error occurred during the ML pipeline: {}'', [ARaised e])]
      | Inr u \<Rightarrow> []) @
     [(INFO, ''ML pipeline finished.'', [])]"
    by (simp add: main_def Let_def logging_info_def logging_error_def
        split: prod.splits sum.splits)
  ultimately show ?thesis
    by (simp add: main_returns)
qed

subsection \<open>A configuration without the key\<close>

text \<open>
  C8, as stated, fails: an empty \<^verbatim>\<open>params.yaml\<close> has no key \<^verbatim>\<open>data_ingestion.test_size\<close>,
  and \<^verbatim>\<open>load_params\<close> raises \<^verbatim>\<open>TypeError\<close> (\<^verbatim>\<open>None\<close> cannot be subscripted), not
  \<^verbatim>\<open>KeyError\<close>.
\<close>

theorem load_params_empty_config_counterexample:
  "configs empty_config_world ''params.yaml'' = Some (Document YNull) \<and>
   fst (load_params ''params.yaml'' empty_config_world) = Inl TypeError"
  by (simp add: load_params_result empty_config_world_def subscript_def)

text \<open>
  C8, amended. When \<^verbatim>\<open>params.yaml\<close> parses to a document, \<^verbatim>\<open>load_params\<close> returns the
  value under \<^verbatim>\<open>data_ingestion\<close> and \<^verbatim>\<open>test_size\<close> when both keys are there. When the
  document is a dict without \<^verbatim>\<open>data_ingestion\<close>, or \<^verbatim>\<open>data_ingestion\<close> is a dict without
  \<^verbatim>\<open>test_size\<close>, it raises \<^verbatim>\<open>KeyError\<close> with the missing key; when the document or its
  \<^verbatim>\<open>data_ingestion\<close> entry is not a dict, it raises \<^verbatim>\<open>TypeError\<close>. No default value is
  put in its place: whenever \<^verbatim>\<open>load_params\<close> raises, \<^verbatim>\<open>main\<close> ends its \<^verbatim>\<open>try\<close> block
  with that exception, creates no directory and writes no file.
\<close>

theorem load_params_missing_key:
  assumes "configs w ''params.yaml'' = Some (Document params)"
  shows "fst (load_params ''params.yaml'' w) =
           (case params of
              YMap kvs \<Rightarrow>
                (case map_of kvs ''data_ingestion'' of
                   None \<Rightarrow> Inl (KeyError ''data_ingestion'')
                 | Some (YMap kvs') \<Rightarrow>
                     (case map_of kvs' ''test_size'' of
                        None \<Rightarrow> Inl (KeyError ''test_size'')
                      | Some v \<Rightarrow> Inr v)
                 | Some _ \<Rightarrow> Inl TypeError)
            | _ \<Rightarrow> Inl TypeError) \<and>
         (\<forall>e. fst (load_params ''params.yaml'' w) = Inl e \<longrightarrow>
            fst (main_try perm w) = Inl e \<and>
            files (snd (main perm w)) = files w \<and> dirs (snd (main perm w)) = dirs w)"
proof -
  have res: "fst (load_params ''params.yaml'' w) =
           (case params of
              YMap kvs \<Rightarrow>
                (case map_of kvs ''data_ingestion'' of
                   None \<Rightarrow> Inl (KeyError ''data_ingestion'')
                 | Some (YMap kvs') \<Rightarrow>
                     (case map_of kvs' ''test_size'' of
                        None \<Rightarrow> Inl (KeyError ''test_size'')
                      | Some v \<Rightarrow> Inr v)
                 | Some _ \<Rightarrow> Inl TypeError)
            | _ \<Rightarrow> Inl TypeError)"
    by (simp add: load_params_result assms subscript_def split: yaml.splits option.splits)
  have "fst (main_try perm w) = Inl e \<and>
      files (snd (main perm w)) = files w \<and> dirs (snd (main perm w)) = dirs w"
    if e: "fst (load_params ''params.yaml'' w) = Inl e" for e
  proof -
    let ?w0 = "logging_info ''ML pipeline started.'' [] w"
    have e0: "fst (load_params ''params.yaml'' ?w0) = Inl e"
      using e by (simp add: load_params_result logging_frame)
    have "main_try perm ?w0 = (Inl e, snd (load_params ''params.yaml'' ?w0))"
      using e0 by (simp add: main_try_stages Let_def)
    then have "files (snd (main perm w)) = files w" "dirs (snd (main perm w)) = dirs w"
      by (simp_all add: main_def Let_def logging_frame load_params_frame)
    moreover have "fst (main_try perm w) = Inl e"
      using e by (simp add: main_try_result)
    ultimately show ?thesis by simp
  qed
  with res show ?thesis by blast
qed

theorem load_params_missing_key_witness:
  "configs no_test_size_world ''params.yaml'' =
     Some (Document (YMap [(''data_ingestion'', YMap [(''random_state'', YInt 42)])])) \<and>
   fst (load_params ''params.yaml'' no_test_size_world) = Inl (KeyError ''test_size'') \<and>
   fst (main_try reversed no_test_size_world) = Inl (KeyError ''test_size'') \<and>
   files (snd (main reversed no_test_size_world)) = files no_test_size_world \<and>
   dirs (snd (main reversed no_test_size_world)) = dirs no_test_size_world"
proof -
  have c: "configs no_test_size_world ''params.yaml'' =
     Some (Document (YMap [(''data_ingestion'', YMap [(''random_state'', YInt 42)])]))"
    by (simp add: no_test_size_world_def)
  have "fst (load_params ''params.yaml'' no_test_size_world) = Inl (KeyError ''test_size'')"
    using load_params_missing_key [OF c, of reversed] by simp
  then show ?thesis
    using load_params_missing_key [OF c, of reversed] c by simp
qed

subsection \<open>The files written\<close>

lemma columns_iloc: "columns (iloc t ps) = columns t"
  by (simp add: columns_def iloc_def case_prod_unfold comp_def)

lemma csv_of_header: "fst (csv_of t False) = columns t"
  by (simp add: csv_of_def)

lemma csv_of_lines: "list_all (\<lambda>line. length line = length (columns t)) (snd (csv_of t False))"
  by (simp add: csv_of_def list_all_iff columns_def)

lemma train_test_split_columns:
  "train_test_split perm t test_size seed = Inr (train, test) \<Longrightarrow>
   columns train = columns t \<and> columns test = columns t"
  by (auto simp: train_test_split_def Let_def columns_iloc split: sum.splits prod.splits)

lemma process_data_returns:
  assumes "fst (process_data df w) = Inr out"
  obtains lab where "''tweet_id'' \<in> set (columns df)" "map_of (cols df) ''sentiment'' = Some lab"
proof -
  have t: "''tweet_id'' \<in> set (columns df)"
    using assms process_data_no_tweet_id [of df w] by (cases "''tweet_id'' \<in> set (columns df)") auto
  have "''sentiment'' \<in> set (columns df)"
    using assms t process_data_no_sentiment [of df w]
    by (cases "''sentiment'' \<in> set (columns df)") auto
  then obtain lab where "map_of (cols df) ''sentiment'' = Some lab"
    by (auto simp: in_columns_iff)
  with t show ?thesis by (rule that)
qed

lemma process_data_columns:
  assumes "fst (process_data df w) = Inr out"
  shows "columns out = filter (\<lambda>c. c \<noteq> ''tweet_id'') (columns df)"
proof -
  from assms obtain lab where t: "''tweet_id'' \<in> set (columns df)"
    and lab: "map_of (cols df) ''sentiment'' = Some lab"
    by (rule process_data_returns)
  let ?masked = "map (\<lambda>(c, cs). (c, boolean_mask (isin lab [Str ''happiness'', Str ''sadness'']) cs))
                   (filter (\<lambda>(c, cs). c \<noteq> ''tweet_id'') (cols df))"
  let ?recoded = "map (\<lambda>(c, cs). if c = ''sentiment''
                        then (c, map (replace_cell [(Str ''happiness'', Num 1), (Str ''sadness'', Num 0)]) cs)
                        else (c, cs)) ?masked"
  from process_data_success [OF t lab, of w] assms
  have "cols out = (if copy_on_write w then ?masked else ?recoded)"
    by auto
  moreover have "map fst ?masked = filter (\<lambda>c. c \<noteq> ''tweet_id'') (columns df)"
    "map fst ?recoded = filter (\<lambda>c. c \<noteq> ''tweet_id'') (columns df)"
    by (simp_all only: columns_def names_update_column names_map_column columns_filter)
  ultimately show ?thesis
    by (simp add: columns_def)
qed

lemma boolean_mask_map: "boolean_mask (map P xs) xs = filter P xs"
  by (induction xs) auto

lemma length_boolean_mask:
  "length xs = length ys \<Longrightarrow> length (boolean_mask m xs) = length (boolean_mask m ys)"
proof (induction m xs arbitrary: ys rule: boolean_mask.induct)
  case (1 b bs x xs)
  then show ?case by (cases ys) auto
qed auto

lemma process_data_sentiment:
  assumes "wf_table df" and "fst (process_data df w) = Inr out" and "\<not> copy_on_write w"
  shows "\<exists>s. map_of (cols out) ''sentiment'' = Some s \<and> set s \<subseteq> {Num 0, Num 1} \<and>
              length s = nrows out"
proof -
  let ?vals = "[Str ''happiness'', Str ''sadness'']"
  let ?m = "[(Str ''happiness'', Num 1), (Str ''sadness'', Num 0)]"
  from assms(2) obtain lab where t: "''tweet_id'' \<in> set (columns df)"
    and lab: "map_of (cols df) ''sentiment'' = Some lab"
    by (rule process_data_returns)
  have len: "length lab = length (index df)"
    using wf_column_length [OF assms(1) lab] by (simp add: nrows_def)
  from process_data_success [OF t lab, of w] assms(2,3)
  have out: "out = \<lparr>index = boolean_mask (isin lab ?vals) (index df),
                 cols = map (\<lambda>(c, cs). if c = ''sentiment''
                           then (c, map (replace_cell ?m) cs) else (c, cs))
                     (map (\<lambda>(c, cs). (c, boolean_mask (isin lab ?vals) cs))
                        (filter (\<lambda>(c, cs). c \<noteq> ''tweet_id'') (cols df)))\<rparr>"
    by auto
  have "map_of (cols out) ''sentiment'' =
      Some (map (replace_cell ?m) (boolean_mask (isin lab ?vals) lab))"
    unfolding out
    by (simp only: table.simps map_of_update_column map_of_map_column map_of_drop_label)
       (simp add: lab)
  moreover have "set (map (replace_cell ?m) (boolean_mask (isin lab ?vals) lab)) \<subseteq> {Num 0, Num 1}"
    by (auto simp: isin_def boolean_mask_map replace_cell_def)
  moreover have "length (map (replace_cell ?m) (boolean_mask (isin lab ?vals) lab)) = nrows out"
    unfolding out using length_boolean_mask [OF len] by (simp add: nrows_def)
  ultimately show ?thesis by blast
qed

lemma field_lookup:
  "map_of (zip (map fst kvs) (map (\<lambda>(c, cs). cs ! k) kvs)) c =
     map_option (\<lambda>cs. cs ! k) (map_of kvs c)"
  by (induction kvs) auto

lemma csv_sentiment_binary:
  assumes "map_of (cols t) ''sentiment'' = Some s" and "set s \<subseteq> {Num 0, Num 1}"
    and "length s = nrows t" and "set ps \<subseteq> {0..<nrows t}"
  shows "list_all (\<lambda>line. map_of (zip (columns (iloc t ps)) line) ''sentiment'' \<in>
                            {Some (Num 0), Some (Num 1)})
           (snd (csv_of (iloc t ps) False))"
proof -
  have col: "map_of (cols (iloc t ps)) ''sentiment'' = Some (map (\<lambda>k. s ! k) ps)"
    by (simp add: iloc_def map_of_map_column assms(1))
  have "map_of (zip (columns (iloc t ps)) (map (\<lambda>(c, cs). cs ! k) (cols (iloc t ps)))) ''sentiment''
        \<in> {Some (Num 0), Some (Num 1)}" if "k < length ps" for k
  proof -
    have "ps ! k < length s"
      using that assms(3,4) by (auto simp: subset_iff)
    then have "s ! (ps ! k) \<in> {Num 0, Num 1}"
      using assms(2) by (meson nth_mem subsetD)
    then show ?thesis
      using that by (simp only: columns_def field_lookup col) auto
  qed
  then show ?thesis
    by (simp add: csv_of_def list_all_iff nrows_iloc)
qed

lemma train_test_split_positions:
  assumes "train_test_split perm t test_size seed = Inr (train, test)"
  obtains ps qs where "train = iloc t ps" "test = iloc t qs"
    "set ps \<subseteq> set (perm seed (nrows t))" "set qs \<subseteq> set (perm seed (nrows t))"
proof -
  from assms obtain n_train n_test where
    "train = iloc t (take n_train (drop n_test (perm seed (nrows t))))"
    "test = iloc t (take n_test (perm seed (nrows t)))"
    by (auto simp: train_test_split_def Let_def split: sum.splits prod.splits)
  moreover have "set (take n_train (drop n_test (perm seed (nrows t)))) \<subseteq> set (perm seed (nrows t))"
    by (meson set_drop_subset set_take_subset subset_trans)
  moreover have "set (take n_test (perm seed (nrows t))) \<subseteq> set (perm seed (nrows t))"
    by (rule set_take_subset)
  ultimately show ?thesis by (rule that)
qed

text \<open>The files after a run, from what the stages return in the world the run starts in.\<close>

lemma main_files_stages:
  "files (snd (main perm w)) =
     (case fst (load_params ''params.yaml'' w) of
        Inl e \<Rightarrow> files w
      | Inr test_size \<Rightarrow>
          (case remote w dataset_url of
             Inl e \<Rightarrow> files w
           | Inr df \<Rightarrow>
               (case fst (process_data df w) of
                  Inl e \<Rightarrow> files w
                | Inr final_df \<Rightarrow>
                    (case train_test_split perm final_df test_size 42 of
                       Inl e \<Rightarrow> files w
                     | Inr (train_data, test_data) \<Rightarrow>
                         files (snd (save_data ''data/raw'' train_data test_data w))))))"
proof -
  let ?w0 = "logging_info ''ML pipeline started.'' [] w"
  have pd: "fst (process_data df ?w0) = fst (process_data df w)" for df
    by (rule process_data_result) (simp add: logging_frame)
  show ?thesis
    by (simp add: main_files main_try_files load_params_result logging_frame pd save_data_files
        split: sum.splits prod.splits)
qed


lemma process_scenario:
  "\<not> copy_on_write w \<Longrightarrow> fst (process_data scenario_table w) = Inr scenario_filtered"
proof -
  assume cow: "\<not> copy_on_write w"
  have "''tweet_id'' \<in> set (columns scenario_table)"
    by (simp add: scenario_table_def columns_def)
  moreover have "map_of (cols scenario_table) ''sentiment'' =
     Some [Str ''happiness'', Str ''sadness'', Str ''neutral'', Str ''happiness'',
           Str ''sadness'', Str ''happiness'', Str ''neutral'', Str ''sadness'',
           Str ''happiness'', Str ''sadness'']"
    by (simp add: scenario_table_def)
  ultimately show ?thesis
    using cow
    by (simp add: process_data_success)
       (simp add: scenario_table_def scenario_filtered_def isin_def replace_cell_def)
qed

lemma scenario_split:
  "train_test_split reversed scenario_filtered (YFloat (1 / 4)) 42 =
     Inr (iloc scenario_filtered [5, 4, 3, 2, 1, 0], iloc scenario_filtered [7, 6])"
proof -
  have "reversed 42 8 = [7, 6, 5, 4, 3, 2, 1, 0]"
    by (simp add: reversed_def upt_rec)
  then show ?thesis
    using train_test_split_fraction [of "1 / 4" scenario_filtered reversed 42]
    by (simp add: nrows_scenario_filtered fmul_quarter_8)
qed

lemma scenario_config:
  "fst (load_params ''params.yaml'' scenario_world) = Inr (YFloat (1 / 4))"
  by (simp add: load_params_result scenario_world_def subscript_def)

lemma scenario_run: "fst (main_try reversed scenario_world) = Inr ()"
proof -
  have "remote scenario_world dataset_url = Inr scenario_table"
    by (simp add: scenario_world_def)
  moreover have "fst (save_data ''data/raw'' train test scenario_world) = Inr ()" for train test
    by (simp add: save_data_result scenario_world_def)
  moreover have "fst (process_data scenario_table scenario_world) = Inr scenario_filtered"
    by (rule process_scenario) (simp add: scenario_world_def)
  ultimately show ?thesis
    by (simp add: main_try_result scenario_config scenario_split)
qed

lemma reversed_permutation: "mset (reversed seed n) = mset [0..<n]"
  by (simp add: reversed_def)

lemma wf_scenario_table: "wf_table scenario_table"
  by (simp add: wf_table_def scenario_table_def columns_def nrows_def)

text \<open>
  C7, as stated, fails: a dataset with the columns \<^verbatim>\<open>tweet_id\<close>, \<^verbatim>\<open>id\<close>, \<^verbatim>\<open>text\<close>,
  \<^verbatim>\<open>sentiment\<close> and \<^verbatim>\<open>author\<close> has the three columns of the specification (under
  either reading of its \<^verbatim>\<open>id\<close>) and two more, and both files are written with four
  columns, \<^verbatim>\<open>id\<close> and \<^verbatim>\<open>author\<close> among them.
\<close>

theorem written_columns_counterexample:
  "remote extra_column_world dataset_url = Inr extra_column_table \<and>
   columns extra_column_table = [''tweet_id'', ''id'', ''text'', ''sentiment'', ''author''] \<and>
   map_option fst (files (snd (main reversed extra_column_world)) ''data/raw/train.csv'') =
     Some [''id'', ''text'', ''sentiment'', ''author''] \<and>
   map_option fst (files (snd (main reversed extra_column_world)) ''data/raw/test.csv'') =
     Some [''id'', ''text'', ''sentiment'', ''author'']"
proof -
  let ?w = extra_column_world
  have r: "remote ?w dataset_url = Inr extra_column_table"
    by (simp add: extra_column_world_def)
  have c: "columns extra_column_table = [''tweet_id'', ''id'', ''text'', ''sentiment'', ''author'']"
    by (simp add: extra_column_table_def columns_def)
  have k: "\<lceil>fmul (1 / 2) 2\<rceil> = 1"
    by code_simp
  have t: "''tweet_id'' \<in> set (columns extra_column_table)"
    by (simp add: c)
  have "map_of (cols extra_column_table) ''sentiment'' = Some [Str ''happiness'', Str ''sadness'']"
    by (simp add: extra_column_table_def)
  from process_data_success [OF t this, of ?w] obtain out where
    out: "fst (process_data extra_column_table ?w) = Inr out" "nrows out = 2"
    by (simp add: nrows_def isin_def extra_column_table_def)
  have cols: "columns out = [''id'', ''text'', ''sentiment'', ''author'']"
    using process_data_columns [OF out(1)] by (simp add: c)
  obtain train test where
    sp: "train_test_split reversed out (YFloat (1 / 2)) 42 = Inr (train, test)"
    using train_test_split_fraction [of "1 / 2" out reversed 42] by (simp add: out(2) k)
  have lp: "fst (load_params ''params.yaml'' ?w) = Inr (YFloat (1 / 2))"
    by (simp add: load_params_result extra_column_world_def subscript_def)
  have "files (snd (save_data ''data/raw'' train test ?w)) =
       (files ?w)(''data/raw/train.csv'' \<mapsto> csv_of train False,
                 ''data/raw/test.csv'' \<mapsto> csv_of test False)"
    by (simp add: save_data_files data_raw extra_column_world_def)
  then have "files (snd (main reversed ?w)) =
       (files ?w)(''data/raw/train.csv'' \<mapsto> csv_of train False,
                 ''data/raw/test.csv'' \<mapsto> csv_of test False)"
    by (simp add: main_files_stages lp r out(1) sp)
  moreover have "columns train = columns out" "columns test = columns out"
    using train_test_split_columns [OF sp] by simp_all
  ultimately show ?thesis
    using r c by (simp add: csv_of_header cols)
qed

text \<open>
  C7, amended. Take a run on a well-formed dataset. The files after the run are the files
  before it with nothing written, with \<^verbatim>\<open>train.csv\<close> written, or with \<^verbatim>\<open>train.csv\<close> and
  \<^verbatim>\<open>test.csv\<close> written, and both are written when the run succeeds. Every file written
  has as header the dataset's column names without \<^verbatim>\<open>tweet_id\<close>, in the dataset's order:
  exactly \<^verbatim>\<open>text\<close> and \<^verbatim>\<open>sentiment\<close> when the dataset has those two besides
  \<^verbatim>\<open>tweet_id\<close>, and every further column of the dataset as well. There is no row-label
  column: every data line has one field per header entry. Where pandas runs without
  copy-on-write, the field under \<^verbatim>\<open>sentiment\<close> is 0 or 1.
\<close>

theorem written_files_columns:
  assumes "remote w dataset_url = Inr df" and "wf_table df"
    and "\<And>n. mset (perm 42 n) = mset [0..<n]"
  shows "\<exists>train_lines test_lines.
     (files (snd (main perm w)) = files w \<or>
      files (snd (main perm w)) =
        (files w)(''data/raw/train.csv'' \<mapsto>
                    (filter (\<lambda>c. c \<noteq> ''tweet_id'') (columns df), train_lines)) \<or>
      files (snd (main perm w)) =
        (files w)(''data/raw/train.csv'' \<mapsto>
                    (filter (\<lambda>c. c \<noteq> ''tweet_id'') (columns df), train_lines),
                  ''data/raw/test.csv'' \<mapsto>
                    (filter (\<lambda>c. c \<noteq> ''tweet_id'') (columns df), test_lines))) \<and>
     (fst (main_try perm w) = Inr () \<longrightarrow>
        files (snd (main perm w)) =
          (files w)(''data/raw/train.csv'' \<mapsto>
                      (filter (\<lambda>c. c \<noteq> ''tweet_id'') (columns df), train_lines),
                    ''data/raw/test.csv'' \<mapsto>
                      (filter (\<lambda>c. c \<noteq> ''tweet_id'') (columns df), test_lines))) \<and>
     list_all (\<lambda>line.
         length line = length (filter (\<lambda>c. c \<noteq> ''tweet_id'') (columns df)) \<and>
         (\<not> copy_on_write w \<longrightarrow>
            map_of (zip (filter (\<lambda>c. c \<noteq> ''tweet_id'') (columns df)) line) ''sentiment'' \<in>
              {Some (Num 0), Some (Num 1)}))
       (train_lines @ test_lines)"
proof -
  let ?header = "filter (\<lambda>c. c \<noteq> ''tweet_id'') (columns df)"
  let ?good = "\<lambda>line. length line = length ?header \<and>
         (\<not> copy_on_write w \<longrightarrow>
            map_of (zip ?header line) ''sentiment'' \<in> {Some (Num 0), Some (Num 1)})"
  let ?P = "\<lambda>train_lines test_lines.
     (files (snd (main perm w)) = files w \<or>
      files (snd (main perm w)) = (files w)(''data/raw/train.csv'' \<mapsto> (?header, train_lines)) \<or>
      files (snd (main perm w)) =
        (files w)(''data/raw/train.csv'' \<mapsto> (?header, train_lines),
                  ''data/raw/test.csv'' \<mapsto> (?header, test_lines))) \<and>
     (fst (main_try perm w) = Inr () \<longrightarrow>
        files (snd (main perm w)) =
          (files w)(''data/raw/train.csv'' \<mapsto> (?header, train_lines),
                    ''data/raw/test.csv'' \<mapsto> (?header, test_lines))) \<and>
     list_all ?good (train_lines @ test_lines)"
  show ?thesis
  proof (cases "fst (load_params ''params.yaml'' w)")
    case (Inl e)
    then have "files (snd (main perm w)) = files w" "fst (main_try perm w) \<noteq> Inr ()"
      by (simp_all add: main_files_stages main_try_result)
    then have "?P [] []"
      by simp
    then show ?thesis by blast
  next
    case (Inr test_size)
    show ?thesis
    proof (cases "fst (process_data df w)")
      case (Inl e)
      with Inr assms(1) have "files (snd (main perm w)) = files w"
        "fst (main_try perm w) \<noteq> Inr ()"
        by (simp_all add: main_files_stages main_try_result)
      then have "?P [] []"
        by simp
      then show ?thesis by blast
    next
      case final: (Inr final_df)
      show ?thesis
      proof (cases "train_test_split perm final_df test_size 42")
        case (Inl e)
        with Inr final assms(1) have "files (snd (main perm w)) = files w"
          "fst (main_try perm w) \<noteq> Inr ()"
          by (simp_all add: main_files_stages main_try_result)
        then have "?P [] []"
          by simp
        then show ?thesis by blast
      next
        case split: (Inr pair)
        obtain train test where pair: "pair = (train, test)"
          by (cases pair)
        have sp: "train_test_split perm final_df test_size 42 = Inr (train, test)"
          using split pair by simp
        have header: "columns final_df = ?header"
          using final by (rule process_data_columns)
        have h: "columns train = ?header" "columns test = ?header"
          using train_test_split_columns [OF sp] header by simp_all
        from sp obtain ps qs where pq: "train = iloc final_df ps" "test = iloc final_df qs"
          "set ps \<subseteq> set (perm 42 (nrows final_df))" "set qs \<subseteq> set (perm 42 (nrows final_df))"
          by (rule train_test_split_positions)
        have "set (perm 42 (nrows final_df)) = {0..<nrows final_df}"
          using assms(3) [of "nrows final_df"] by (metis mset_eq_setD set_upt)
        with pq have range: "set ps \<subseteq> {0..<nrows final_df}" "set qs \<subseteq> {0..<nrows final_df}"
          by simp_all
        have binary: "list_all (\<lambda>line. map_of (zip ?header line) ''sentiment'' \<in>
                            {Some (Num 0), Some (Num 1)}) (snd (csv_of train False)) \<and>
            list_all (\<lambda>line. map_of (zip ?header line) ''sentiment'' \<in>
                            {Some (Num 0), Some (Num 1)}) (snd (csv_of test False))"
          if "\<not> copy_on_write w"
        proof -
          from process_data_sentiment [OF assms(2) final that] obtain sc where sc:
            "map_of (cols final_df) ''sentiment'' = Some sc" "set sc \<subseteq> {Num 0, Num 1}"
            "length sc = nrows final_df"
            by blast
          show ?thesis
            using csv_sentiment_binary [OF sc range(1)] csv_sentiment_binary [OF sc range(2)]
            by (simp add: h flip: pq(1,2))
        qed
        have good: "list_all ?good (snd (csv_of train False) @ snd (csv_of test False))"
          using csv_of_lines [of train] csv_of_lines [of test] binary
          by (auto simp: list_all_iff h)
        have csv: "csv_of train False = (?header, snd (csv_of train False))"
          "csv_of test False = (?header, snd (csv_of test False))"
          using csv_of_header [of train] csv_of_header [of test] by (simp_all add: h prod_eq_iff)
        have files: "files (snd (main perm w)) =
            files (snd (save_data ''data/raw'' train test w))"
          using Inr final sp assms(1) by (simp add: main_files_stages)
        have result: "fst (main_try perm w) = fst (save_data ''data/raw'' train test w)"
          using Inr final sp assms(1) by (simp add: main_try_result)
        have "?P (snd (csv_of train False)) (snd (csv_of test False))"
          using good
          by (auto simp: files result save_data_files save_data_result data_raw
              simp flip: csv split: if_splits)
        then show ?thesis by blast
      qed
    qed
  qed
qed


theorem written_files_columns_witness:
  "remote scenario_world dataset_url = Inr scenario_table \<and> wf_table scenario_table \<and>
   \<not> copy_on_write scenario_world \<and> fst (main_try reversed scenario_world) = Inr () \<and>
   (\<exists>train_lines test_lines.
     files (snd (main reversed scenario_world)) =
       (files scenario_world)(''data/raw/train.csv'' \<mapsto> ([''sentiment'', ''text''], train_lines),
                              ''data/raw/test.csv'' \<mapsto> ([''sentiment'', ''text''], test_lines)) \<and>
     list_all (\<lambda>line. length line = 2 \<and>
         map_of (zip [''sentiment'', ''text''] line) ''sentiment'' \<in> {Some (Num 0), Some (Num 1)})
       (train_lines @ test_lines))"
proof -
  have r: "remote scenario_world dataset_url = Inr scenario_table"
    by (simp add: scenario_world_def)
  have cow: "\<not> copy_on_write scenario_world"
    by (simp add: scenario_world_def)
  have header: "filter (\<lambda>c. c \<noteq> ''tweet_id'') (columns scenario_table) = [''sentiment'', ''text'']"
    by (simp add: scenario_table_def columns_def)
  from written_files_columns [of scenario_world scenario_table reversed,
      OF r wf_scenario_table reversed_permutation]
  obtain train_lines test_lines where
    "files (snd (main reversed scenario_world)) =
       (files scenario_world)(''data/raw/train.csv'' \<mapsto> ([''sentiment'', ''text''], train_lines),
                              ''data/raw/test.csv'' \<mapsto> ([''sentiment'', ''text''], test_lines))"
    "list_all (\<lambda>line. length line = 2 \<and>
         map_of (zip [''sentiment'', ''text''] line) ''sentiment'' \<in> {Some (Num 0), Some (Num 1)})
       (train_lines @ test_lines)"
    unfolding header using scenario_run cow by (auto simp: numeral_2_eq_2)
  then show ?thesis
    using r wf_scenario_table cow scenario_run by blast
qed

end
